theory Spec2Isabelle
  imports Main
begin

section \<open>Data model of \<open>src/contexts/useBribes.tsx\<close>\<close>

text \<open>
  An ethers \<open>BigNumber\<close> is an arbitrary-precision signed integer. A position of a
  multicall result holds a \<open>BigNumber\<close>, or \<open>null\<close> when that single call failed; reading
  an array past its end gives \<open>undefined\<close>. Both \<open>null\<close> and \<open>undefined\<close> are \<open>None\<close> here:
  the code treats them alike (a method call on either throws a TypeError, a plain store
  keeps the value).
\<close>

type_synonym BigNumber = int

datatype error = TypeError | NumericFault | InvalidArgument | NetworkError

text \<open>
  \<open>TCurveGaugeRewards\<close>: gauge address to (token address to amount). A stored amount is
  whatever the multicall position held, so it may be \<open>null\<close>/\<open>undefined\<close>.
\<close>

type_synonym TCurveGaugeRewards = "string \<rightharpoonup> (string \<rightharpoonup> BigNumber option)"

text \<open>The six \<open>useState\<close> cells of \<open>BribesContextApp\<close> (lines 43 to 48).\<close>

record TBribesContext =
  currentRewards :: TCurveGaugeRewards
  nextRewards :: TCurveGaugeRewards
  claimable :: TCurveGaugeRewards
  currentPeriod :: int
  nextPeriod :: int
  isLoading :: bool

text \<open>
  The initial cells; \<open>lastThursday\<close> is the value of \<open>getLastThursday()\<close>, which reads the
  wall clock.
\<close>

definition initialState :: "int \<Rightarrow> TBribesContext" where
  "initialState lastThursday =
     \<lparr>currentRewards = Map.empty, nextRewards = Map.empty, claimable = Map.empty,
      currentPeriod = lastThursday, nextPeriod = lastThursday + (86400 * 7),
      isLoading = True\<rparr>"

text \<open>
  A gauge descriptor of \<open>useCurve()\<close>: only the two fields this file touches. The field
  \<open>rewardPerGauge\<close> may be absent.
\<close>

record TCurveGauges =
  gauge :: string
  rewardPerGauge :: "string list option"

datatype abi = CURVE_BRIBE_V2 | CURVE_BRIBE_V3

datatype Contract = Contract string abi

text \<open>The call descriptors built by the \<open>ethcall\<close> contract objects.\<close>

datatype call =
    Current_period Contract
  | Rewards_per_gauge Contract string
  | Reward_per_token Contract string string
  | Active_period Contract string string
  | Claimable Contract "string option" string string
  | Reward_per_gauge Contract string string
  | Claims_per_gauge Contract string string

text \<open>
  The node handle, an external collaborator, taken as a parameter.
  \<open>providers.newEthCallProvider\<close> may reject (\<open>connect_fault\<close>), a whole batch may reject
  (\<open>batch_fault\<close>); otherwise \<open>tryAll\<close> answers every call of the batch at its position,
  with \<open>null\<close> for a call that failed.
\<close>

record provider =
  connect_fault :: "error option"
  batch_fault :: "error option"
  answer_addresses :: "call \<Rightarrow> string list option"
  answer_uint :: "call \<Rightarrow> BigNumber option"

definition tryAll_addresses :: "provider \<Rightarrow> call list \<Rightarrow> error + string list option list" where
  "tryAll_addresses p calls =
     (case batch_fault p of Some e \<Rightarrow> Inl e | None \<Rightarrow> Inr (map (answer_addresses p) calls))"

definition tryAll_uint :: "provider \<Rightarrow> call list \<Rightarrow> error + BigNumber option list" where
  "tryAll_uint p calls =
     (case batch_fault p of Some e \<Rightarrow> Inl e | None \<Rightarrow> Inr (map (answer_uint p) calls))"

text \<open>
  What the callbacks close over: \<open>useWeb3()\<close> gives \<open>provider\<close>, \<open>isActive\<close> and
  \<open>address\<close>, \<open>useCurve()\<close> gives \<open>gauges\<close>; each but \<open>isActive\<close> may be undefined.
\<close>

record closure =
  isActive :: bool
  web3Provider :: "provider option"
  address :: "string option"
  gauges :: "TCurveGauges list option"

section \<open>Composite keys\<close>

text \<open>
  Modelled from the spec: \<open>allowanceKey\<close> is imported from \<open>utils\<close>, which is not among
  the sources. The spec (section 3, RewardKey) calls the key the pair (gauge address,
  token address) encoded as a delimited string, and the decoder at lines 184 and 220
  splits at the underscore.
\<close>

definition allowanceKey :: "string \<Rightarrow> string \<Rightarrow> string" where
  "allowanceKey g t = g @ ''_'' @ t"

text \<open>JavaScript's \<open>s.split(c)\<close> for a one-character separator.\<close>

fun split :: "char \<Rightarrow> string \<Rightarrow> string list" where
  "split c [] = [[]]"
| "split c (x # xs) =
     (if x = c then [] # split c xs
      else (case split c xs of [] \<Rightarrow> [[x]] | w # ws \<Rightarrow> (x # w) # ws))"

text \<open>Array destructuring \<open>[gauge, token] = parts\<close>: a missing position is undefined.\<close>

definition destructure2 :: "'a list \<Rightarrow> 'a option \<times> 'a option" where
  "destructure2 parts =
     (case parts of [] \<Rightarrow> (None, None) | [a] \<Rightarrow> (Some a, None) | a # b # _ \<Rightarrow> (Some a, Some b))"

text \<open>
  The normalised (gauge, token) pair under which a key is stored. \<open>toAddress\<close> is the
  library function of \<open>@yearn-finance/web-lib\<close> (checksum normalisation), a parameter.
\<close>

definition keyPair :: "(string option \<Rightarrow> string) \<Rightarrow> string \<Rightarrow> string \<times> string" where
  "keyPair toAddress rewardListKey =
     (case destructure2 (split CHR ''_'' rewardListKey) of
        (g, t) \<Rightarrow> (toAddress g, toAddress t))"

section \<open>Two-level mappings\<close>

text \<open>
  \<open>if (!m[g]) {m[g] = {}}; m[g][t] = v\<close>: an object is truthy, so an inner mapping once
  created is kept.
\<close>

definition put :: "TCurveGaugeRewards \<Rightarrow> string \<Rightarrow> string \<Rightarrow> BigNumber option \<Rightarrow> TCurveGaugeRewards" where
  "put m g t v = m(g \<mapsto> (case m g of None \<Rightarrow> Map.empty | Some inner \<Rightarrow> inner)(t \<mapsto> v))"

text \<open>\<open>m[g][t]\<close> when both levels have the key.\<close>

definition entry :: "TCurveGaugeRewards \<Rightarrow> string \<Rightarrow> string \<Rightarrow> BigNumber option option" where
  "entry m g t = (case m g of None \<Rightarrow> None | Some inner \<Rightarrow> inner t)"

section \<open>Aggregation\<close>

text \<open>\<open>multicallResult[i]\<close>.\<close>

definition at :: "'a option list \<Rightarrow> nat \<Rightarrow> 'a option" where
  "at xs i = (if i < length xs then xs ! i else None)"

text \<open>
  \<open>BigNumber.toNumber()\<close> throws a numeric fault when the value does not fit 53 bits.
\<close>

definition toNumber :: "BigNumber \<Rightarrow> error + int" where
  "toNumber x = (if \<bar>x\<bar> < 2 ^ 53 then Inr x else Inl NumericFault)"

type_synonym bribes_acc = "TCurveGaugeRewards \<times> TCurveGaugeRewards \<times> TCurveGaugeRewards"

text \<open>
  One round of the loop of \<open>assignBribes\<close> (lines 179 to 198), on the locals
  \<open>(_currentRewards, _periods, _claimable)\<close>; the three reads are at \<open>rIndex\<close>,
  \<open>rIndex + 1\<close> and \<open>rIndex + 2\<close>.
\<close>

definition assignBribes_round ::
  "(string option \<Rightarrow> string) \<Rightarrow> int \<Rightarrow> BigNumber option list \<Rightarrow> string \<Rightarrow> nat \<Rightarrow> bribes_acc
     \<Rightarrow> error + bribes_acc" where
  "assignBribes_round toAddress cp multicallResult rewardListKey rIndex acc =
     (case acc of (cur, per, cl) \<Rightarrow>
       let rewardPerTokenPerGauge = at multicallResult rIndex;
           periodPerTokenPerGauge = at multicallResult (rIndex + 1);
           claimablePerTokenPerGauge = at multicallResult (rIndex + 2)
       in case periodPerTokenPerGauge of
            None \<Rightarrow> Inl TypeError
          | Some period \<Rightarrow>
             (case toNumber period of
                Inl e \<Rightarrow> Inl e
              | Inr n \<Rightarrow>
                 if n \<ge> cp then
                   if rewardListKey \<noteq> [] then
                     (case rewardPerTokenPerGauge of
                        None \<Rightarrow> Inl TypeError
                      | Some reward \<Rightarrow>
                         if reward > 0 then
                           (case keyPair toAddress rewardListKey of (g, t) \<Rightarrow>
                              Inr (put cur g t (Some reward),
                                   put per g t (Some period),
                                   put cl g t claimablePerTokenPerGauge))
                         else Inr acc)
                   else Inr acc
                 else Inr acc))"

fun assignBribes_loop ::
  "(string option \<Rightarrow> string) \<Rightarrow> int \<Rightarrow> BigNumber option list \<Rightarrow> string list \<Rightarrow> nat \<Rightarrow> bribes_acc
     \<Rightarrow> error + bribes_acc" where
  "assignBribes_loop toAddress cp multicallResult [] rIndex acc = Inr acc"
| "assignBribes_loop toAddress cp multicallResult (rewardListKey # rest) rIndex acc =
     (case assignBribes_round toAddress cp multicallResult rewardListKey rIndex acc of
        Inl e \<Rightarrow> Inl e
      | Inr acc' \<Rightarrow> assignBribes_loop toAddress cp multicallResult rest (rIndex + 3) acc')"

text \<open>
  \<open>assignBribes\<close> (lines 169 to 203). \<open>cp\<close> is the \<open>currentPeriod\<close> the callback closed
  over. \<open>Inl\<close>: the promise rejects inside the loop, before any setter ran, so the cells
  keep their values. \<open>Inr\<close>: the cells after the call.
\<close>

definition assignBribes ::
  "(string option \<Rightarrow> string) \<Rightarrow> int \<Rightarrow> string list \<Rightarrow> BigNumber option list \<Rightarrow> TBribesContext
     \<Rightarrow> error + TBribesContext" where
  "assignBribes toAddress cp rewardsList multicallResult s =
     (if length multicallResult = 0 \<or> length rewardsList = 0 then Inr s
      else case assignBribes_loop toAddress cp multicallResult rewardsList 0
                  (Map.empty, Map.empty, Map.empty) of
             Inl e \<Rightarrow> Inl e
           | Inr (cur, per, cl) \<Rightarrow>
               Inr (s\<lparr>currentRewards := cur, claimable := cl, isLoading := False\<rparr>))"

text \<open>
  One round of the loop of \<open>assignNextRewards\<close> (lines 217 to 226).
  \<open>a.sub(b)\<close> throws a TypeError when \<open>a\<close> is not an object and rejects a \<open>b\<close> that is not
  a number; otherwise it is the exact integer difference.
\<close>

definition assignNextRewards_round ::
  "(string option \<Rightarrow> string) \<Rightarrow> BigNumber option list \<Rightarrow> string \<Rightarrow> nat \<Rightarrow> TCurveGaugeRewards
     \<Rightarrow> error + TCurveGaugeRewards" where
  "assignNextRewards_round toAddress multicallResult rewardListKey rIndex nxt =
     (let rewardPerTokenPerGauge = at multicallResult rIndex;
          claimsPerTokenPerGauge = at multicallResult (rIndex + 1)
      in if rewardListKey \<noteq> [] then
           (case rewardPerTokenPerGauge of
              None \<Rightarrow> Inl TypeError
            | Some reward \<Rightarrow>
               (case claimsPerTokenPerGauge of
                  None \<Rightarrow> Inl InvalidArgument
                | Some claims \<Rightarrow>
                   (case keyPair toAddress rewardListKey of (g, t) \<Rightarrow>
                      Inr (put nxt g t (Some (reward - claims))))))
         else Inr nxt)"

fun assignNextRewards_loop ::
  "(string option \<Rightarrow> string) \<Rightarrow> BigNumber option list \<Rightarrow> string list \<Rightarrow> nat \<Rightarrow> TCurveGaugeRewards
     \<Rightarrow> error + TCurveGaugeRewards" where
  "assignNextRewards_loop toAddress multicallResult [] rIndex nxt = Inr nxt"
| "assignNextRewards_loop toAddress multicallResult (rewardListKey # rest) rIndex nxt =
     (case assignNextRewards_round toAddress multicallResult rewardListKey rIndex nxt of
        Inl e \<Rightarrow> Inl e
      | Inr nxt' \<Rightarrow> assignNextRewards_loop toAddress multicallResult rest (rIndex + 2) nxt')"

text \<open>\<open>assignNextRewards\<close> (lines 209 to 229).\<close>

definition assignNextRewards ::
  "(string option \<Rightarrow> string) \<Rightarrow> string list \<Rightarrow> BigNumber option list \<Rightarrow> TBribesContext
     \<Rightarrow> error + TBribesContext" where
  "assignNextRewards toAddress rewardsList multicallResult s =
     (if length multicallResult = 0 \<or> length rewardsList = 0 then Inr s
      else case assignNextRewards_loop toAddress multicallResult rewardsList 0 Map.empty of
             Inl e \<Rightarrow> Inl e
           | Inr nxt \<Rightarrow> Inr (s\<lparr>nextRewards := nxt\<rparr>))"

section \<open>Fetching\<close>

text \<open>
  \<open>getRewardsPerGauges\<close> (lines 74 to 87). \<open>fallback\<close> is
  \<open>providers.getProvider(1)\<close>, the right operand of \<open>provider || ...\<close>.
\<close>

definition getRewardsPerGauges ::
  "provider \<Rightarrow> closure \<Rightarrow> Contract \<Rightarrow> error + string list option list" where
  "getRewardsPerGauges fallback w contract =
     (if \<not> isActive w \<or> web3Provider w = None
         \<or> length (case gauges w of None \<Rightarrow> [] | Some gs \<Rightarrow> gs) = 0
      then Inr []
      else let currentProvider = (case web3Provider w of Some p \<Rightarrow> p | None \<Rightarrow> fallback)
           in case connect_fault currentProvider of
                Some e \<Rightarrow> Inl e
              | None \<Rightarrow>
                 (case gauges w of
                    None \<Rightarrow> Inl TypeError
                  | Some gs \<Rightarrow>
                     tryAll_addresses currentProvider
                       (map (\<lambda>g. Rewards_per_gauge contract (gauge g)) gs)))"

text \<open>
  Line 101: \<open>'0xd63042a93525f33500c3a5c0387856d5a69bd1ec' || address\<close>. The operator
  yields its left operand unless that is falsy; a string is falsy when it is empty.
\<close>

definition userAddress :: "closure \<Rightarrow> string option" where
  "userAddress w =
     (if ''0xd63042a93525f33500c3a5c0387856d5a69bd1ec'' \<noteq> []
      then Some ''0xd63042a93525f33500c3a5c0387856d5a69bd1ec'' else address w)"

text \<open>\<open>xs.shift()\<close>: the first element (undefined when there is none) and the rest.\<close>

definition shift :: "'a option list \<Rightarrow> 'a option \<times> 'a option list" where
  "shift xs = (case xs of [] \<Rightarrow> (None, []) | x # rest \<Rightarrow> (x, rest))"

text \<open>
  The loop of \<open>getRewardsPerUser\<close> (lines 108 to 124) over the gauges: the gauges as it
  leaves them, the keys pushed to \<open>rewardsList\<close> and the calls pushed to the batch, in
  order. A gauge with a non-empty discovered list gets the list pushed onto its
  \<open>rewardPerGauge\<close> field, created empty when absent.
\<close>

fun getRewardsPerUser_loop ::
  "Contract \<Rightarrow> string option \<Rightarrow> TCurveGauges list \<Rightarrow> string list option list
     \<Rightarrow> TCurveGauges list \<times> string list \<times> call list" where
  "getRewardsPerUser_loop contract user [] rpg = ([], [], [])"
| "getRewardsPerUser_loop contract user (g # gs) rpg =
     (case shift rpg of (shifted, rpg') \<Rightarrow>
       (case getRewardsPerUser_loop contract user gs rpg' of (gs', keys, calls) \<Rightarrow>
         (case shifted of
            None \<Rightarrow> (g # gs', keys, calls)
          | Some tokens \<Rightarrow>
             if length tokens > 0 then
               (g\<lparr>rewardPerGauge :=
                    Some ((case rewardPerGauge g of None \<Rightarrow> [] | Some old \<Rightarrow> old) @ tokens)\<rparr> # gs',
                map (\<lambda>tokenAsReward. allowanceKey (gauge g) tokenAsReward) tokens @ keys,
                concat (map (\<lambda>tokenAsReward.
                    [Reward_per_token contract (gauge g) tokenAsReward,
                     Active_period contract (gauge g) tokenAsReward,
                     Claimable contract user (gauge g) tokenAsReward]) tokens) @ calls)
             else (g # gs', keys, calls))))"

text \<open>
  \<open>getRewardsPerUser\<close> (lines 94 to 128): the gauge descriptors as the call leaves them
  (they are shared objects, written before the batch is sent) and the outcome.
\<close>

definition getRewardsPerUser ::
  "provider \<Rightarrow> closure \<Rightarrow> Contract \<Rightarrow> string list option list
     \<Rightarrow> TCurveGauges list option \<times> (error + string list \<times> BigNumber option list)" where
  "getRewardsPerUser fallback w contract rewardsPerGauges =
     (if \<not> isActive w \<or> web3Provider w = None \<or> length rewardsPerGauges = 0
      then (gauges w, Inr ([], []))
      else let currentProvider = (case web3Provider w of Some p \<Rightarrow> p | None \<Rightarrow> fallback)
           in case connect_fault currentProvider of
                Some e \<Rightarrow> (gauges w, Inl e)
              | None \<Rightarrow>
                 (case gauges w of
                    None \<Rightarrow> (None, Inl TypeError)
                  | Some gs \<Rightarrow>
                     (case getRewardsPerUser_loop contract (userAddress w) gs rewardsPerGauges of
                        (gs', rewardsList, calls) \<Rightarrow>
                          (Some gs',
                           (case tryAll_uint currentProvider calls of
                              Inl e \<Rightarrow> Inl e
                            | Inr multicallResult \<Rightarrow> Inr (rewardsList, multicallResult))))))"

text \<open>The loop of \<open>getNextPeriodRewards\<close> (lines 148 to 159): keys and calls.\<close>

fun getNextPeriodRewards_loop ::
  "Contract \<Rightarrow> TCurveGauges list \<Rightarrow> string list option list \<Rightarrow> string list \<times> call list" where
  "getNextPeriodRewards_loop contract [] rpg = ([], [])"
| "getNextPeriodRewards_loop contract (g # gs) rpg =
     (case shift rpg of (shifted, rpg') \<Rightarrow>
       (case getNextPeriodRewards_loop contract gs rpg' of (keys, calls) \<Rightarrow>
         (case shifted of
            None \<Rightarrow> (keys, calls)
          | Some tokens \<Rightarrow>
             if length tokens > 0 then
               (map (\<lambda>tokenAsReward. allowanceKey (gauge g) tokenAsReward) tokens @ keys,
                concat (map (\<lambda>tokenAsReward.
                    [Reward_per_gauge contract (gauge g) tokenAsReward,
                     Claims_per_gauge contract (gauge g) tokenAsReward]) tokens) @ calls)
             else (keys, calls))))"

text \<open>\<open>getNextPeriodRewards\<close> (lines 135 to 163).\<close>

definition getNextPeriodRewards ::
  "provider \<Rightarrow> closure \<Rightarrow> Contract \<Rightarrow> string list option list
     \<Rightarrow> error + string list \<times> BigNumber option list" where
  "getNextPeriodRewards fallback w contract rewardsPerGauges =
     (if \<not> isActive w \<or> web3Provider w = None \<or> length rewardsPerGauges = 0
      then Inr ([], [])
      else let currentProvider = (case web3Provider w of Some p \<Rightarrow> p | None \<Rightarrow> fallback)
           in case connect_fault currentProvider of
                Some e \<Rightarrow> Inl e
              | None \<Rightarrow>
                 (case gauges w of
                    None \<Rightarrow> Inl TypeError
                  | Some gs \<Rightarrow>
                     (case getNextPeriodRewards_loop contract gs rewardsPerGauges of
                        (rewardsList, calls) \<Rightarrow>
                          (case tryAll_uint currentProvider calls of
                             Inl e \<Rightarrow> Inl e
                           | Inr multicallResult \<Rightarrow> Inr (rewardsList, multicallResult)))))"

section \<open>Periods\<close>

text \<open>
  \<open>getSharedStuffFromBribes\<close> (lines 54 to 64). \<open>Number\<close> is JavaScript's conversion of
  the one result of the batch to a number, a parameter; \<open>v3Address\<close> is
  \<open>process.env.CURVE_BRIBE_V3_ADDRESS\<close>.
\<close>

definition getSharedStuffFromBribes ::
  "provider \<Rightarrow> (BigNumber option \<Rightarrow> int) \<Rightarrow> string \<Rightarrow> closure \<Rightarrow> TBribesContext
     \<Rightarrow> error + TBribesContext" where
  "getSharedStuffFromBribes fallback Number v3Address w s =
     (let currentProvider = (case web3Provider w of Some p \<Rightarrow> p | None \<Rightarrow> fallback);
          curveBribeV3Contract = Contract v3Address CURVE_BRIBE_V3
      in case connect_fault currentProvider of
           Some e \<Rightarrow> Inl e
         | None \<Rightarrow>
            (case tryAll_uint currentProvider [Current_period curveBribeV3Contract] of
               Inl e \<Rightarrow> Inl e
             | Inr res \<Rightarrow>
                (let currentPeriod' = at res 0
                 in Inr (s\<lparr>currentPeriod := Number currentPeriod',
                           nextPeriod := Number currentPeriod' + (86400 * 7)\<rparr>))))"

section \<open>Orchestration\<close>

text \<open>
  \<open>getBribes\<close> (lines 234 to 259); \<open>v2Address\<close> and \<open>v3Address\<close> are the two
  \<open>process.env\<close> values, \<open>cp\<close> the \<open>currentPeriod\<close> that \<open>assignBribes\<close> closed over.
  The result is the gauge descriptors as the refresh leaves them, and either the error
  that rejects the refresh or the cells after it.

  The three fetches of the second \<open>Promise.all\<close> are started together; each runs its loop
  without suspending, and the result of none depends on the \<open>rewardPerGauge\<close> fields the
  other writes, so they are run here one after the other. \<open>assignBribes\<close> and
  \<open>assignNextRewards\<close> are called without \<open>await\<close>: when one rejects, its cells keep
  their values and the refresh still completes.
\<close>

definition getBribes ::
  "provider \<Rightarrow> (string option \<Rightarrow> string) \<Rightarrow> string \<Rightarrow> string \<Rightarrow> int \<Rightarrow> closure \<Rightarrow> TBribesContext
     \<Rightarrow> TCurveGauges list option \<times> (error + TBribesContext)" where
  "getBribes fallback toAddress v2Address v3Address cp w s =
     (let curveBribeV2Contract = Contract v2Address CURVE_BRIBE_V2;
          curveBribeV3Contract = Contract v3Address CURVE_BRIBE_V3
      in case getRewardsPerGauges fallback w curveBribeV2Contract of
           Inl e \<Rightarrow> (gauges w, Inl e)
         | Inr rewardsPerGaugesV2 \<Rightarrow>
       (case getRewardsPerGauges fallback w curveBribeV3Contract of
           Inl e \<Rightarrow> (gauges w, Inl e)
         | Inr rewardsPerGaugesV3 \<Rightarrow>
       (case getRewardsPerUser fallback w curveBribeV2Contract rewardsPerGaugesV2 of
          (gauges1, rewardsPerUserV2) \<Rightarrow>
       (case getRewardsPerUser fallback (w\<lparr>gauges := gauges1\<rparr>) curveBribeV2Contract
               rewardsPerGaugesV3 of
          (gauges2, rewardsPerUserV3) \<Rightarrow>
       (case rewardsPerUserV2 of
           Inl e \<Rightarrow> (gauges2, Inl e)
         | Inr (rewardsListV2, multicallResultV2) \<Rightarrow>
       (case rewardsPerUserV3 of
           Inl e \<Rightarrow> (gauges2, Inl e)
         | Inr (rewardsListV3, multicallResultV3) \<Rightarrow>
       (case getNextPeriodRewards fallback (w\<lparr>gauges := gauges2\<rparr>) curveBribeV3Contract
               rewardsPerGaugesV3 of
           Inl e \<Rightarrow> (gauges2, Inl e)
         | Inr (nextRewardsListV3, nextMulticallResultV3) \<Rightarrow>
            (let s1 = (case assignBribes toAddress cp
                              (rewardsListV2 @ rewardsListV3)
                              (multicallResultV2 @ multicallResultV3) s of
                         Inl e \<Rightarrow> s | Inr s' \<Rightarrow> s');
                 s2 = (case assignNextRewards toAddress nextRewardsListV3
                              nextMulticallResultV3 s1 of
                         Inl e \<Rightarrow> s1 | Inr s' \<Rightarrow> s')
             in (gauges2, Inr s2)))))))))"

definition plainAddress :: "string option \<Rightarrow> string" where
  "plainAddress a = (case a of None \<Rightarrow> ''0x0000000000000000000000000000000000000000'' | Some x \<Rightarrow> x)"

definition published ::
  "(string option \<Rightarrow> string) \<Rightarrow> int \<Rightarrow> BigNumber option list \<Rightarrow> string \<Rightarrow> nat \<Rightarrow> string \<Rightarrow> string \<Rightarrow> bool" where
  "published toAddress cp multicallResult rewardListKey rIndex g t =
     (rewardListKey \<noteq> [] \<and> keyPair toAddress rewardListKey = (g, t) \<and>
      (\<exists>reward period. at multicallResult rIndex = Some reward \<and>
          at multicallResult (rIndex + 1) = Some period \<and> 0 < reward \<and> cp \<le> period))"

definition same_keys :: "TCurveGaugeRewards \<Rightarrow> TCurveGaugeRewards \<Rightarrow> bool" where
  "same_keys a b = (dom a = dom b \<and> (\<forall>g t. (entry a g t = None) = (entry b g t = None)))"

text \<open>
  Sample parameters for the examples: two registries, one gauge \<open>G1\<close>, and a node on
  which only the V3 registry knows a reward token \<open>T1\<close> for \<open>G1\<close>, with reward 100,
  active period 1000 and claimable 5 (reward per gauge 100, claims per gauge 30). The V2
  registry answers every read with 0.
\<close>

definition sampleV2 :: Contract where
  "sampleV2 = Contract ''V2'' CURVE_BRIBE_V2"

definition sampleV3 :: Contract where
  "sampleV3 = Contract ''V3'' CURVE_BRIBE_V3"

fun sampleAddresses :: "call \<Rightarrow> string list option" where
  "sampleAddresses (Rewards_per_gauge (Contract a v) g) =
     (if v = CURVE_BRIBE_V3 \<and> g = ''G1'' then Some [''T1''] else Some [])"
| "sampleAddresses _ = None"

fun sampleUint :: "call \<Rightarrow> BigNumber option" where
  "sampleUint (Current_period c) = Some 1000"
| "sampleUint (Rewards_per_gauge c g) = None"
| "sampleUint (Reward_per_token (Contract a v) g t) =
     (if v = CURVE_BRIBE_V3 then Some 100 else Some 0)"
| "sampleUint (Active_period (Contract a v) g t) =
     (if v = CURVE_BRIBE_V3 then Some 1000 else Some 0)"
| "sampleUint (Claimable (Contract a v) u g t) =
     (if v = CURVE_BRIBE_V3 then Some 5 else Some 0)"
| "sampleUint (Reward_per_gauge (Contract a v) g t) =
     (if v = CURVE_BRIBE_V3 then Some 100 else Some 0)"
| "sampleUint (Claims_per_gauge (Contract a v) g t) =
     (if v = CURVE_BRIBE_V3 then Some 30 else Some 0)"

definition sampleNode :: provider where
  "sampleNode = \<lparr>connect_fault = None, batch_fault = None,
                 answer_addresses = sampleAddresses, answer_uint = sampleUint\<rparr>"

definition sampleClosure :: closure where
  "sampleClosure = \<lparr>isActive = True, web3Provider = Some sampleNode, address = None,
                    gauges = Some [\<lparr>gauge = ''G1'', rewardPerGauge = None\<rparr>]\<rparr>"

text \<open>
  An address as the registries return it: \<open>0x\<close> followed by forty hexadecimal digits, in
  lower, upper or mixed case.
\<close>

definition hexDigit :: "char \<Rightarrow> bool" where
  "hexDigit c = (c \<in> set ''0123456789abcdefABCDEF'')"

definition isAddress :: "string \<Rightarrow> bool" where
  "isAddress a = (length a = 42 \<and> take 2 a = ''0x'' \<and> list_all hexDigit (drop 2 a))"

text \<open>
  The (gauge address, token address) pairs of a discovery result, in gauge order: each
  gauge is paired with the list at its position, and a missing or failed list gives no
  pair.
\<close>

definition discoveredPairs :: "TCurveGauges list \<Rightarrow> string list option list \<Rightarrow> (string \<times> string) list" where
  "discoveredPairs gs rewardsPerGauges =
     concat (map (\<lambda>(g, found). case found of None \<Rightarrow> [] | Some tokens \<Rightarrow> map (Pair (gauge g)) tokens)
               (zip gs rewardsPerGauges))"

text \<open>
  A sample node whose claimable answer tells the queried user apart: 5 for the fixed
  address of line 101, 77 for any other user; every other read answers 1.
\<close>

fun sampleUintByUser :: "call \<Rightarrow> BigNumber option" where
  "sampleUintByUser (Claimable c u g t) =
     (if u = Some ''0xd63042a93525f33500c3a5c0387856d5a69bd1ec'' then Some 5 else Some 77)"
| "sampleUintByUser _ = Some 1"

lemma entry_empty [simp]: "entry Map.empty g t = None"
  by (simp add: entry_def)

lemma entry_put: "entry (put m g t v) g' t' = (if g' = g \<and> t' = t then Some v else entry m g' t')"
  by (simp add: entry_def put_def split: option.splits)

lemma dom_put: "dom (put m g t v) = insert g (dom m)"
  by (simp add: put_def)

lemma toNumber_Inr: "toNumber x = Inr n \<Longrightarrow> n = x \<and> \<bar>x\<bar> < 2 ^ 53"
  by (simp add: toNumber_def split: if_splits)

lemma assignBribes_round_currentRewards:
  assumes "assignBribes_round tA cp mr k r (cur, per, cl) = Inr (cur', per', cl')"
  shows "entry cur' g t \<noteq> None \<longleftrightarrow> entry cur g t \<noteq> None \<or> published tA cp mr k r g t"
  using assms
  by (auto simp: assignBribes_round_def published_def Let_def entry_put
      dest!: toNumber_Inr split: option.splits sum.splits if_splits prod.splits)

lemma assignBribes_round_claimable:
  assumes "assignBribes_round tA cp mr k r (cur, per, cl) = Inr (cur', per', cl')"
  shows "entry cl' g t \<noteq> None \<longleftrightarrow> entry cl g t \<noteq> None \<or> published tA cp mr k r g t"
  using assms
  by (auto simp: assignBribes_round_def published_def Let_def entry_put
      dest!: toNumber_Inr split: option.splits sum.splits if_splits prod.splits)

lemma assignBribes_round_dom:
  assumes "assignBribes_round tA cp mr k r (cur, per, cl) = Inr (cur', per', cl')"
    and "dom cur = dom cl"
  shows "dom cur' = dom cl'"
proof -
  from assms(1) consider
      (same) "cur' = cur" "cl' = cl"
    | (stored) g t v w where "cur' = put cur g t v" "cl' = put cl g t w"
    by (auto simp: assignBribes_round_def Let_def
        split: option.splits sum.splits if_splits prod.splits)
  then show ?thesis
  proof cases
    case same
    with assms(2) show ?thesis by simp
  next
    case stored
    with assms(2) show ?thesis by (simp add: dom_put)
  qed
qed

lemma assignBribes_round_returns:
  assumes "at mr r = Some reward" "at mr (r + 1) = Some period" "\<bar>period\<bar> < 2 ^ 53"
  shows "\<exists>acc'. assignBribes_round tA cp mr k r acc = Inr acc'"
  using assms
  by (cases acc) (simp add: assignBribes_round_def toNumber_def Let_def split: prod.splits)

lemma assignBribes_loop_Cons:
  assumes "assignBribes_loop tA cp mr (k # ks) r (cur, per, cl) = Inr (cur', per', cl')"
  obtains cur1 per1 cl1 where
    "assignBribes_round tA cp mr k r (cur, per, cl) = Inr (cur1, per1, cl1)"
    "assignBribes_loop tA cp mr ks (r + 3) (cur1, per1, cl1) = Inr (cur', per', cl')"
  using assms by (auto split: sum.splits)

lemma stride3: "r + 3 + 3 * i = r + 3 * Suc i"
  by simp

lemma assignBribes_loop_currentRewards:
  "assignBribes_loop tA cp mr ks r (cur, per, cl) = Inr (cur', per', cl') \<Longrightarrow>
   entry cur' g t \<noteq> None \<longleftrightarrow>
     entry cur g t \<noteq> None \<or> (\<exists>i<length ks. published tA cp mr (ks ! i) (r + 3 * i) g t)"
proof (induction ks arbitrary: r cur per cl)
  case Nil
  then show ?case by simp
next
  case (Cons k ks)
  from Cons.prems obtain cur1 per1 cl1 where
    r1: "assignBribes_round tA cp mr k r (cur, per, cl) = Inr (cur1, per1, cl1)" and
    l1: "assignBribes_loop tA cp mr ks (r + 3) (cur1, per1, cl1) = Inr (cur', per', cl')"
    by (rule assignBribes_loop_Cons)
  show ?case
    unfolding Cons.IH [OF l1] assignBribes_round_currentRewards [OF r1]
    by (auto simp: Ex_less_Suc2 stride3)
qed

lemma assignBribes_loop_claimable:
  "assignBribes_loop tA cp mr ks r (cur, per, cl) = Inr (cur', per', cl') \<Longrightarrow>
   entry cl' g t \<noteq> None \<longleftrightarrow>
     entry cl g t \<noteq> None \<or> (\<exists>i<length ks. published tA cp mr (ks ! i) (r + 3 * i) g t)"
proof (induction ks arbitrary: r cur per cl)
  case Nil
  then show ?case by simp
next
  case (Cons k ks)
  from Cons.prems obtain cur1 per1 cl1 where
    r1: "assignBribes_round tA cp mr k r (cur, per, cl) = Inr (cur1, per1, cl1)" and
    l1: "assignBribes_loop tA cp mr ks (r + 3) (cur1, per1, cl1) = Inr (cur', per', cl')"
    by (rule assignBribes_loop_Cons)
  show ?case
    unfolding Cons.IH [OF l1] assignBribes_round_claimable [OF r1]
    by (auto simp: Ex_less_Suc2 stride3)
qed

lemma assignBribes_loop_dom:
  "assignBribes_loop tA cp mr ks r (cur, per, cl) = Inr (cur', per', cl') \<Longrightarrow>
   dom cur = dom cl \<Longrightarrow> dom cur' = dom cl'"
proof (induction ks arbitrary: r cur per cl)
  case Nil
  then show ?case by simp
next
  case (Cons k ks)
  from Cons.prems(1) obtain cur1 per1 cl1 where
    r1: "assignBribes_round tA cp mr k r (cur, per, cl) = Inr (cur1, per1, cl1)" and
    l1: "assignBribes_loop tA cp mr ks (r + 3) (cur1, per1, cl1) = Inr (cur', per', cl')"
    by (rule assignBribes_loop_Cons)
  from assignBribes_round_dom [OF r1 Cons.prems(2)] show ?case
    by (rule Cons.IH [OF l1])
qed

lemma assignBribes_loop_returns:
  "\<forall>i<length ks. \<exists>reward period. at mr (r + 3 * i) = Some reward \<and>
      at mr (r + 3 * i + 1) = Some period \<and> \<bar>period\<bar> < 2 ^ 53 \<Longrightarrow>
   \<exists>acc'. assignBribes_loop tA cp mr ks r acc = Inr acc'"
proof (induction ks arbitrary: r acc)
  case Nil
  show ?case by (simp del: split_paired_Ex)
next
  case (Cons k ks)
  from Cons.prems have "\<exists>reward period. at mr r = Some reward \<and>
      at mr (r + 1) = Some period \<and> \<bar>period\<bar> < 2 ^ 53"
    by fastforce
  then obtain acc1 where r1: "assignBribes_round tA cp mr k r acc = Inr acc1"
    using assignBribes_round_returns by blast
  have "\<forall>i<length ks. \<exists>reward period. at mr (r + 3 + 3 * i) = Some reward \<and>
      at mr (r + 3 + 3 * i + 1) = Some period \<and> \<bar>period\<bar> < 2 ^ 53"
  proof (intro allI impI)
    fix i assume "i < length ks"
    then have "Suc i < length (k # ks)" by simp
    from Cons.prems [rule_format, OF this] show "\<exists>reward period. at mr (r + 3 + 3 * i) = Some reward \<and>
      at mr (r + 3 + 3 * i + 1) = Some period \<and> \<bar>period\<bar> < 2 ^ 53"
      by (simp add: stride3)
  qed
  from Cons.IH [OF this] r1 show ?case by simp
qed


section \<open>Discovery short-circuit\<close>

text \<open>
  C6: reward-token discovery called with an inactive connection, a missing provider or an
  empty (or absent) gauge list returns the empty list. It does so whatever the node
  does, since no remote call is made: the result is a value, never an error.
\<close>

theorem getRewardsPerGauges_empty:
  assumes "\<not> isActive w \<or> web3Provider w = None \<or> gauges w = None \<or> gauges w = Some []"
  shows "getRewardsPerGauges fallback w contract = Inr []"
  using assms by (auto simp: getRewardsPerGauges_def)

theorem getRewardsPerGauges_empty_witness:
  "getRewardsPerGauges
     \<lparr>connect_fault = Some NetworkError, batch_fault = Some NetworkError,
      answer_addresses = (\<lambda>c. None), answer_uint = (\<lambda>c. None)\<rparr>
     \<lparr>isActive = False, web3Provider = None, address = None,
      gauges = Some [\<lparr>gauge = ''G1'', rewardPerGauge = None\<rparr>]\<rparr>
     (Contract ''V2'' CURVE_BRIBE_V2) = Inr []"
  by (rule getRewardsPerGauges_empty) simp

section \<open>Empty inputs of the aggregation\<close>

text \<open>
  C7: \<open>assignBribes\<close> and \<open>assignNextRewards\<close> called with an empty key list or an empty
  result list return with every cell (the three mappings, the periods and the loading
  flag) as it was. Nothing partial is ever published: the cells after a call are either
  the cells before it, or the cells before it with the mappings replaced by what the loop
  built over the whole key list.
\<close>

theorem assign_empty_is_noop:
  "assignBribes toAddress cp [] multicallResult s = Inr s \<and>
   assignBribes toAddress cp rewardsList [] s = Inr s \<and>
   assignNextRewards toAddress [] multicallResult s = Inr s \<and>
   assignNextRewards toAddress rewardsList [] s = Inr s \<and>
   (assignBribes toAddress cp rewardsList multicallResult s = Inr afterBribes \<longrightarrow>
      afterBribes = s \<or>
      (\<exists>cur per cl.
          assignBribes_loop toAddress cp multicallResult rewardsList 0
            (Map.empty, Map.empty, Map.empty) = Inr (cur, per, cl) \<and>
          afterBribes = s\<lparr>currentRewards := cur, claimable := cl, isLoading := False\<rparr>)) \<and>
   (assignNextRewards toAddress rewardsList multicallResult s = Inr afterNext \<longrightarrow>
      afterNext = s \<or>
      (\<exists>nxt.
          assignNextRewards_loop toAddress multicallResult rewardsList 0 Map.empty = Inr nxt \<and>
          afterNext = s\<lparr>nextRewards := nxt\<rparr>))"
  by (auto simp: assignBribes_def assignNextRewards_def split: if_splits sum.splits)

theorem assign_empty_is_noop_witness:
  "assignBribes plainAddress 1000 [''G1_T1'', ''G1_T2'']
     [Some 100, Some 1000, Some 5, Some 1, None, Some 7] (initialState 1000) = Inl TypeError \<and>
   assignNextRewards plainAddress [''G1_T1'', ''G1_T2'']
     [Some 100, Some 30, Some 1] (initialState 1000) = Inl InvalidArgument \<and>
   assignBribes plainAddress 1000 [''G1_T1''] [Some 100, Some 1000, Some 5] (initialState 1000) =
     Inr ((initialState 1000)\<lparr>currentRewards := put Map.empty ''G1'' ''T1'' (Some 100),
            claimable := put Map.empty ''G1'' ''T1'' (Some 5), isLoading := False\<rparr>) \<and>
   assignNextRewards plainAddress [''G1_T1''] [Some 100, Some 30] (initialState 1000) =
     Inr ((initialState 1000)\<lparr>nextRewards := put Map.empty ''G1'' ''T1'' (Some 70)\<rparr>) \<and>
   assignBribes plainAddress 1000 [] [Some 100, Some 1000, Some 5] (initialState 1000) =
     Inr (initialState 1000) \<and>
   assignNextRewards plainAddress [''G1_T1''] [] (initialState 1000) = Inr (initialState 1000) \<and>
   (\<exists>cur per cl. assignBribes_loop plainAddress 1000 [Some 100, Some 1000, Some 5] [''G1_T1''] 0
        (Map.empty, Map.empty, Map.empty) = Inr (cur, per, cl) \<and>
      cur = put Map.empty ''G1'' ''T1'' (Some 100) \<and> cl = put Map.empty ''G1'' ''T1'' (Some 5))"
proof -
  have k: "keyPair plainAddress ''G1_T1'' = (''G1'', ''T1'')"
    by (simp add: keyPair_def destructure2_def plainAddress_def)
  have a: "assignBribes plainAddress 1000 [''G1_T1'', ''G1_T2'']
      [Some 100, Some 1000, Some 5, Some 1, None, Some 7] (initialState 1000) = Inl TypeError"
    by (simp add: assignBribes_def assignBribes_round_def at_def toNumber_def k)
  have b: "assignNextRewards plainAddress [''G1_T1'', ''G1_T2'']
      [Some 100, Some 30, Some 1] (initialState 1000) = Inl InvalidArgument"
    by (simp add: assignNextRewards_def assignNextRewards_round_def at_def k)
  have c: "assignBribes plainAddress 1000 [''G1_T1''] [Some 100, Some 1000, Some 5]
        (initialState 1000) =
      Inr ((initialState 1000)\<lparr>currentRewards := put Map.empty ''G1'' ''T1'' (Some 100),
             claimable := put Map.empty ''G1'' ''T1'' (Some 5), isLoading := False\<rparr>)"
    by (simp add: assignBribes_def assignBribes_round_def at_def toNumber_def k)
  have d: "assignNextRewards plainAddress [''G1_T1''] [Some 100, Some 30] (initialState 1000) =
      Inr ((initialState 1000)\<lparr>nextRewards := put Map.empty ''G1'' ''T1'' (Some 70)\<rparr>)"
    by (simp add: assignNextRewards_def assignNextRewards_round_def at_def k)
  from assign_empty_is_noop [where toAddress = plainAddress and cp = 1000
      and s = "initialState 1000" and rewardsList = "[''G1_T1'']"
      and multicallResult = "[Some 100, Some 1000, Some 5]"]
  have e: "assignBribes plainAddress 1000 [] [Some 100, Some 1000, Some 5] (initialState 1000) =
      Inr (initialState 1000)"
    and f: "assignNextRewards plainAddress [''G1_T1''] [] (initialState 1000) =
      Inr (initialState 1000)"
    and g: "assignBribes plainAddress 1000 [''G1_T1''] [Some 100, Some 1000, Some 5]
          (initialState 1000) = Inr afterBribes \<longrightarrow>
        afterBribes = initialState 1000 \<or>
        (\<exists>cur per cl.
            assignBribes_loop plainAddress 1000 [Some 100, Some 1000, Some 5] [''G1_T1''] 0
              (Map.empty, Map.empty, Map.empty) = Inr (cur, per, cl) \<and>
            afterBribes = (initialState 1000)\<lparr>currentRewards := cur, claimable := cl,
                            isLoading := False\<rparr>)" for afterBribes
    by simp_all
  have h: "\<exists>cur per cl. assignBribes_loop plainAddress 1000 [Some 100, Some 1000, Some 5]
        [''G1_T1''] 0 (Map.empty, Map.empty, Map.empty) = Inr (cur, per, cl) \<and>
      cur = put Map.empty ''G1'' ''T1'' (Some 100) \<and> cl = put Map.empty ''G1'' ''T1'' (Some 5)"
    using g [rule_format, OF c]
    by (auto simp: initialState_def)
  from a b c d e f h show ?thesis by simp
qed

section \<open>The user address of the per-user fetch\<close>

lemma userAddress_const: "userAddress w = Some ''0xd63042a93525f33500c3a5c0387856d5a69bd1ec''"
  by (simp add: userAddress_def)

lemma getRewardsPerUser_loop_batch:
  "getRewardsPerUser_loop contract user gs rpg = (gs', keys, calls) \<Longrightarrow>
   keys = map (\<lambda>(g, t). allowanceKey g t) (discoveredPairs gs rpg) \<and>
   calls = concat (map (\<lambda>(g, t). [Reward_per_token contract g t, Active_period contract g t,
                                  Claimable contract user g t]) (discoveredPairs gs rpg))"
proof (induction gs arbitrary: rpg gs' keys calls)
  case Nil
  then show ?case by (simp add: discoveredPairs_def)
next
  case (Cons g gs)
  obtain shifted rest where sh: "shift rpg = (shifted, rest)"
    by (cases "shift rpg")
  obtain gsr keysr callsr where
    rec: "getRewardsPerUser_loop contract user gs rest = (gsr, keysr, callsr)"
    by (cases "getRewardsPerUser_loop contract user gs rest")
  note ih = Cons.IH [OF rec]
  show ?case
  proof (cases rpg)
    case Nil
    with sh have "shifted = None" "rest = []" by (simp_all add: shift_def)
    with Cons.prems sh rec ih Nil show ?thesis
      by (simp add: discoveredPairs_def)
  next
    case (Cons x xs)
    with sh have "shifted = x" "rest = xs" by (simp_all add: shift_def)
    with Cons.prems sh rec ih Cons show ?thesis
      by (auto simp: discoveredPairs_def comp_def split: option.splits if_splits)
  qed
qed

text \<open>
  C4: the per-user fetch does not depend on the connected account: two runs that differ
  only in \<open>address\<close> have the same outcome (gauges, key list, result batch or error).
  When the fetch reaches the node, its key list is the list of discovered (gauge, token)
  pairs and its result batch is the node's answer to three reads per pair, the third
  being the claimable query for the fixed address
  \<open>0xd63042a93525f33500c3a5c0387856d5a69bd1ec\<close>, whatever \<open>address\<close> is.
\<close>

theorem getRewardsPerUser_fixed_user:
  "getRewardsPerUser fallback (w\<lparr>address := a\<rparr>) contract rewardsPerGauges =
   getRewardsPerUser fallback (w\<lparr>address := b\<rparr>) contract rewardsPerGauges \<and>
   (isActive w \<and> web3Provider w = Some p \<and> connect_fault p = None \<and> batch_fault p = None \<and>
    gauges w = Some gs \<and> rewardsPerGauges \<noteq> [] \<longrightarrow>
      snd (getRewardsPerUser fallback w contract rewardsPerGauges) =
        Inr (map (\<lambda>(g, t). allowanceKey g t) (discoveredPairs gs rewardsPerGauges),
             map (answer_uint p)
               (concat (map (\<lambda>(g, t).
                    [Reward_per_token contract g t, Active_period contract g t,
                     Claimable contract (Some ''0xd63042a93525f33500c3a5c0387856d5a69bd1ec'') g t])
                  (discoveredPairs gs rewardsPerGauges)))))"
proof (intro conjI impI)
  show "getRewardsPerUser fallback (w\<lparr>address := a\<rparr>) contract rewardsPerGauges =
        getRewardsPerUser fallback (w\<lparr>address := b\<rparr>) contract rewardsPerGauges"
    by (simp add: getRewardsPerUser_def userAddress_const Let_def split: option.splits)
next
  assume run: "isActive w \<and> web3Provider w = Some p \<and> connect_fault p = None \<and>
    batch_fault p = None \<and> gauges w = Some gs \<and> rewardsPerGauges \<noteq> []"
  obtain gs' keys calls where
    loop: "getRewardsPerUser_loop contract
             (Some ''0xd63042a93525f33500c3a5c0387856d5a69bd1ec'') gs rewardsPerGauges =
           (gs', keys, calls)"
    by (cases "getRewardsPerUser_loop contract
             (Some ''0xd63042a93525f33500c3a5c0387856d5a69bd1ec'') gs rewardsPerGauges")
  from run loop have "snd (getRewardsPerUser fallback w contract rewardsPerGauges) =
      Inr (keys, map (answer_uint p) calls)"
    by (simp add: getRewardsPerUser_def userAddress_const tryAll_uint_def)
  with getRewardsPerUser_loop_batch [OF loop]
  show "snd (getRewardsPerUser fallback w contract rewardsPerGauges) =
        Inr (map (\<lambda>(g, t). allowanceKey g t) (discoveredPairs gs rewardsPerGauges),
             map (answer_uint p)
               (concat (map (\<lambda>(g, t).
                    [Reward_per_token contract g t, Active_period contract g t,
                     Claimable contract (Some ''0xd63042a93525f33500c3a5c0387856d5a69bd1ec'') g t])
                  (discoveredPairs gs rewardsPerGauges))))"
    by simp
qed

theorem getRewardsPerUser_fixed_user_witness:
  "snd (getRewardsPerUser sampleNode
          (sampleClosure\<lparr>web3Provider := Some (sampleNode\<lparr>answer_uint := sampleUintByUser\<rparr>),
                          address := Some ''0xAlice''\<rparr>)
          sampleV2 [Some [''T1'']]) =
     Inr ([''G1_T1''], [Some 1, Some 1, Some 5]) \<and>
   getRewardsPerUser sampleNode
       (sampleClosure\<lparr>web3Provider := Some (sampleNode\<lparr>answer_uint := sampleUintByUser\<rparr>),
                       address := Some ''0xAlice''\<rparr>)
       sampleV2 [Some [''T1'']] =
   getRewardsPerUser sampleNode
       (sampleClosure\<lparr>web3Provider := Some (sampleNode\<lparr>answer_uint := sampleUintByUser\<rparr>),
                       address := Some ''0xBob''\<rparr>)
       sampleV2 [Some [''T1'']] \<and>
   sampleUintByUser (Claimable sampleV2 (Some ''0xAlice'') ''G1'' ''T1'') = Some 77"
proof -
  let ?p = "sampleNode\<lparr>answer_uint := sampleUintByUser\<rparr>"
  let ?alice = "sampleClosure\<lparr>web3Provider := Some ?p, address := Some ''0xAlice''\<rparr>"
  let ?bob = "sampleClosure\<lparr>web3Provider := Some ?p, address := Some ''0xBob''\<rparr>"
  have pairs: "discoveredPairs [\<lparr>gauge = ''G1'', rewardPerGauge = None\<rparr>] [Some [''T1'']] =
      [(''G1'', ''T1'')]"
    by (simp add: discoveredPairs_def)
  have reaches: "isActive ?alice \<and> web3Provider ?alice = Some ?p \<and> connect_fault ?p = None \<and>
      batch_fault ?p = None \<and>
      gauges ?alice = Some [\<lparr>gauge = ''G1'', rewardPerGauge = None\<rparr>] \<and>
      [Some [''T1'']] \<noteq> ([] :: string list option list)"
    by (simp add: sampleClosure_def sampleNode_def)
  have upd: "?alice\<lparr>address := Some ''0xAlice''\<rparr> = ?alice"
      "?alice\<lparr>address := Some ''0xBob''\<rparr> = ?bob"
    by simp_all
  note fixed = getRewardsPerUser_fixed_user [where fallback = sampleNode
      and w = ?alice and p = ?p
      and a = "Some ''0xAlice''" and b = "Some ''0xBob''" and contract = sampleV2
      and rewardsPerGauges = "[Some [''T1'']]"
      and gs = "[\<lparr>gauge = ''G1'', rewardPerGauge = None\<rparr>]"]
  have eq: "getRewardsPerUser sampleNode ?alice sampleV2 [Some [''T1'']] =
      getRewardsPerUser sampleNode ?bob sampleV2 [Some [''T1'']]"
    using fixed [THEN conjunct1] unfolding upd .
  have res: "snd (getRewardsPerUser sampleNode ?alice sampleV2 [Some [''T1'']]) =
      Inr ([''G1_T1''], [Some 1, Some 1, Some 5])"
    using fixed [THEN conjunct2, rule_format, OF reaches]
    by (simp add: pairs allowanceKey_def)
  have "sampleUintByUser (Claimable sampleV2 (Some ''0xAlice'') ''G1'' ''T1'') = Some 77"
    by simp
  with eq res show ?thesis by blast
qed

section \<open>Current-period aggregation\<close>

lemma at_map_Some: "at (map Some vals) j = (if j < length vals then Some (vals ! j) else None)"
  by (simp add: at_def)

text \<open>
  C2: the key list holds composite keys (none is the empty string) and the result list
  matches it: three numbers per key, the reward an unsigned amount, the period within
  the range \<open>toNumber\<close> accepts. Then \<open>assignBribes\<close> publishes, and the published
  \<open>currentRewards\<close> has an entry for a (gauge, token) pair if and only if some key of that
  pair has a nonzero reward and a period at or after \<open>currentPeriod\<close>.
\<close>

theorem assignBribes_entry_iff:
  assumes res: "multicallResult = map Some vals"
    and len: "length vals = 3 * length rewardsList"
    and ne: "rewardsList \<noteq> []"
    and keys: "[] \<notin> set rewardsList"
    and wf: "\<forall>i<length rewardsList. 0 \<le> vals ! (3 * i) \<and> \<bar>vals ! (3 * i + 1)\<bar> < 2 ^ 53"
  shows "\<exists>s'. assignBribes toAddress cp rewardsList multicallResult s = Inr s' \<and>
           (\<forall>g t. entry (currentRewards s') g t \<noteq> None \<longleftrightarrow>
              (\<exists>i<length rewardsList. keyPair toAddress (rewardsList ! i) = (g, t) \<and>
                 vals ! (3 * i) \<noteq> 0 \<and> cp \<le> vals ! (3 * i + 1)))"
proof -
  have total: "\<forall>i<length rewardsList. \<exists>reward period.
      at multicallResult (0 + 3 * i) = Some reward \<and>
      at multicallResult (0 + 3 * i + 1) = Some period \<and> \<bar>period\<bar> < 2 ^ 53"
    using wf len by (simp add: res at_map_Some)
  obtain cur per cl where
    loop: "assignBribes_loop toAddress cp multicallResult rewardsList 0
             (Map.empty, Map.empty, Map.empty) = Inr (cur, per, cl)"
    using assignBribes_loop_returns [OF total] by (metis prod_cases3)
  have pub: "published toAddress cp multicallResult (rewardsList ! i) (0 + 3 * i) g t \<longleftrightarrow>
      keyPair toAddress (rewardsList ! i) = (g, t) \<and> vals ! (3 * i) \<noteq> 0 \<and> cp \<le> vals ! (3 * i + 1)"
    if "i < length rewardsList" for i g t
  proof -
    from that keys have "rewardsList ! i \<noteq> []"
      by (metis nth_mem)
    moreover from that wf have "0 \<le> vals ! (3 * i)" by simp
    ultimately show ?thesis
      using that len by (auto simp: published_def res at_map_Some)
  qed
  from ne have nonempty: "multicallResult \<noteq> []"
    using len res by auto
  have "assignBribes toAddress cp rewardsList multicallResult s =
      Inr (s\<lparr>currentRewards := cur, claimable := cl, isLoading := False\<rparr>)"
    using ne nonempty loop by (simp add: assignBribes_def)
  moreover have "entry cur g t \<noteq> None \<longleftrightarrow>
      (\<exists>i<length rewardsList. keyPair toAddress (rewardsList ! i) = (g, t) \<and>
         vals ! (3 * i) \<noteq> 0 \<and> cp \<le> vals ! (3 * i + 1))" for g t
    unfolding assignBribes_loop_currentRewards [OF loop] using pub by auto
  ultimately show ?thesis by simp
qed

theorem assignBribes_entry_iff_witness:
  "\<exists>s'. assignBribes plainAddress 1000 [''G1_T1'', ''G1_T2'']
            (map Some [100, 1000, 5, 0, 2000, 7]) (initialState 1000) = Inr s' \<and>
         entry (currentRewards s') ''G1'' ''T1'' \<noteq> None \<and>
         entry (currentRewards s') ''G1'' ''T2'' = None"
proof -
  have k1: "keyPair plainAddress ''G1_T1'' = (''G1'', ''T1'')"
    by (simp add: keyPair_def destructure2_def plainAddress_def)
  have k2: "keyPair plainAddress ''G1_T2'' = (''G1'', ''T2'')"
    by (simp add: keyPair_def destructure2_def plainAddress_def)
  have two: "\<And>P. (\<exists>i<2::nat. P i) \<longleftrightarrow> P 0 \<or> P 1"
    by (metis One_nat_def less_2_cases_iff)
  from assignBribes_entry_iff [where toAddress = plainAddress and cp = 1000
      and rewardsList = "[''G1_T1'', ''G1_T2'']" and vals = "[100, 1000, 5, 0, 2000, 7]"
      and multicallResult = "map Some [100, 1000, 5, 0, 2000, 7]" and s = "initialState 1000"]
  obtain s' where
    run: "assignBribes plainAddress 1000 [''G1_T1'', ''G1_T2'']
            (map Some [100, 1000, 5, 0, 2000, 7]) (initialState 1000) = Inr s'" and
    iff: "\<And>g t. entry (currentRewards s') g t \<noteq> None \<longleftrightarrow>
            (\<exists>i<2. keyPair plainAddress ([''G1_T1'', ''G1_T2''] ! i) = (g, t) \<and>
               [100, 1000, 5, 0, 2000, 7] ! (3 * i) \<noteq> (0::int) \<and>
               (1000::int) \<le> [100, 1000, 5, 0, 2000, 7] ! (3 * i + 1))"
    by (auto simp: All_less_Suc2 numeral_2_eq_2)
  have "entry (currentRewards s') ''G1'' ''T1'' \<noteq> None"
    unfolding iff two by (simp add: k1)
  moreover have "entry (currentRewards s') ''G1'' ''T2'' = None"
    using iff [of "''G1''" "''T2''"] unfolding two by (simp add: k1 k2)
  ultimately show ?thesis using run by blast
qed

section \<open>Claimable amounts follow the current rewards\<close>

lemma same_keys_empty: "same_keys Map.empty Map.empty"
  by (simp add: same_keys_def)

text \<open>
  C9: after a run of \<open>assignBribes\<close> the mappings \<open>claimable\<close> and \<open>currentRewards\<close>
  have the same gauges and the same (gauge, token) entries. A run that publishes builds
  both from empty mappings; a run that returns early keeps the cells, so the property
  carries over from the cells before (it holds of the initial, empty ones). A published
  claimable entry always comes from a key whose reward is nonzero and whose period is at
  or after \<open>currentPeriod\<close>; the claimable amount itself is never looked at.
\<close>

theorem assignBribes_claimable_keys:
  assumes run: "assignBribes toAddress cp rewardsList multicallResult s = Inr s'"
    and before: "same_keys (currentRewards s) (claimable s)"
  shows "same_keys (currentRewards s') (claimable s') \<and>
         (rewardsList \<noteq> [] \<and> multicallResult \<noteq> [] \<longrightarrow>
            (\<forall>g t. entry (claimable s') g t \<noteq> None \<longrightarrow>
               (\<exists>i<length rewardsList. keyPair toAddress (rewardsList ! i) = (g, t) \<and>
                  (\<exists>reward period. at multicallResult (3 * i) = Some reward \<and>
                     at multicallResult (3 * i + 1) = Some period \<and>
                     reward \<noteq> 0 \<and> cp \<le> period))))"
proof (cases "multicallResult = [] \<or> rewardsList = []")
  case True
  with run have "s' = s" by (auto simp: assignBribes_def)
  with before True show ?thesis by auto
next
  case False
  with run obtain cur per cl where
    loop: "assignBribes_loop toAddress cp multicallResult rewardsList 0
             (Map.empty, Map.empty, Map.empty) = Inr (cur, per, cl)" and
    s': "s' = s\<lparr>currentRewards := cur, claimable := cl, isLoading := False\<rparr>"
    by (auto simp: assignBribes_def split: sum.splits)
  have "dom cur = dom cl"
    using assignBribes_loop_dom [OF loop] by simp
  moreover have "(entry cur g t = None) = (entry cl g t = None)" for g t
    using assignBribes_loop_currentRewards [OF loop, of g t] assignBribes_loop_claimable [OF loop, of g t] by auto
  ultimately have same: "same_keys (currentRewards s') (claimable s')"
    by (simp add: same_keys_def s')
  have "\<exists>i<length rewardsList. keyPair toAddress (rewardsList ! i) = (g, t) \<and>
          (\<exists>reward period. at multicallResult (3 * i) = Some reward \<and>
             at multicallResult (3 * i + 1) = Some period \<and> reward \<noteq> 0 \<and> cp \<le> period)"
    if "entry (claimable s') g t \<noteq> None" for g t
  proof -
    from that have "\<exists>i<length rewardsList.
        published toAddress cp multicallResult (rewardsList ! i) (0 + 3 * i) g t"
      using assignBribes_loop_claimable [OF loop, of g t] by (simp add: s')
    then show ?thesis
      by (fastforce simp: published_def)
  qed
  with same show ?thesis by blast
qed

theorem assignBribes_claimable_keys_witness:
  "\<exists>s'. assignBribes plainAddress 1000 [''G1_T1'', ''G1_T2'']
            (map Some [100, 1000, 5, 0, 2000, 7]) (initialState 1000) = Inr s' \<and>
         same_keys (currentRewards s') (claimable s') \<and>
         entry (claimable s') ''G1'' ''T1'' = Some (Some 5) \<and>
         entry (claimable s') ''G1'' ''T2'' = None"
proof -
  have run: "assignBribes plainAddress 1000 [''G1_T1'', ''G1_T2'']
       (map Some [100, 1000, 5, 0, 2000, 7]) (initialState 1000) =
     Inr ((initialState 1000)\<lparr>currentRewards := put Map.empty ''G1'' ''T1'' (Some 100),
            claimable := put Map.empty ''G1'' ''T1'' (Some 5), isLoading := False\<rparr>)"
    by (simp add: assignBribes_def assignBribes_round_def at_def toNumber_def keyPair_def
        destructure2_def plainAddress_def)
  have before: "same_keys (currentRewards (initialState 1000)) (claimable (initialState 1000))"
    by (simp add: initialState_def same_keys_def)
  from assignBribes_claimable_keys [OF run before]
  have "same_keys (put Map.empty ''G1'' ''T1'' (Some 100)) (put Map.empty ''G1'' ''T1'' (Some 5))"
    by simp
  then show ?thesis
    unfolding run by (simp add: entry_put)
qed

section \<open>Next-period aggregation\<close>

lemma assignNextRewards_round_cases:
  assumes "assignNextRewards_round tA mr k r nxt = Inr nxt'"
  obtains (skip) "k = []" "nxt' = nxt"
    | (store) reward claims where "k \<noteq> []" "at mr r = Some reward" "at mr (r + 1) = Some claims"
        "nxt' = put nxt (fst (keyPair tA k)) (snd (keyPair tA k)) (Some (reward - claims))"
  using assms
  by (auto simp: assignNextRewards_round_def Let_def split: if_splits option.splits prod.splits)

lemma assignNextRewards_loop_Cons:
  assumes "assignNextRewards_loop tA mr (k # ks) r nxt = Inr nxt'"
  obtains nxt1 where
    "assignNextRewards_round tA mr k r nxt = Inr nxt1"
    "assignNextRewards_loop tA mr ks (r + 2) nxt1 = Inr nxt'"
  using assms by (auto split: sum.splits)

lemma stride2: "r + 2 + 2 * i = r + 2 * Suc i"
  by simp

lemma assignNextRewards_loop_other:
  "assignNextRewards_loop tA mr ks r nxt = Inr nxt' \<Longrightarrow>
   \<forall>i<length ks. ks ! i \<noteq> [] \<longrightarrow> keyPair tA (ks ! i) \<noteq> (g, t) \<Longrightarrow>
   entry nxt' g t = entry nxt g t"
proof (induction ks arbitrary: r nxt)
  case Nil
  then show ?case by simp
next
  case (Cons k ks)
  from Cons.prems(1) obtain nxt1 where
    r1: "assignNextRewards_round tA mr k r nxt = Inr nxt1" and
    l1: "assignNextRewards_loop tA mr ks (r + 2) nxt1 = Inr nxt'"
    by (rule assignNextRewards_loop_Cons)
  from Cons.prems(2) have here: "k \<noteq> [] \<longrightarrow> keyPair tA k \<noteq> (g, t)"
    and rest: "\<forall>i<length ks. ks ! i \<noteq> [] \<longrightarrow> keyPair tA (ks ! i) \<noteq> (g, t)"
    by (auto simp: All_less_Suc2)
  from r1 here have "entry nxt1 g t = entry nxt g t"
    by (cases rule: assignNextRewards_round_cases) (auto simp: entry_put)
  with Cons.IH [OF l1 rest] show ?case by simp
qed

lemma assignNextRewards_loop_last:
  "assignNextRewards_loop tA mr ks r nxt = Inr nxt' \<Longrightarrow>
   i < length ks \<Longrightarrow> ks ! i \<noteq> [] \<Longrightarrow> keyPair tA (ks ! i) = (g, t) \<Longrightarrow>
   \<forall>j<length ks. i < j \<longrightarrow> ks ! j \<noteq> [] \<longrightarrow> keyPair tA (ks ! j) \<noteq> (g, t) \<Longrightarrow>
   \<exists>reward claims. at mr (r + 2 * i) = Some reward \<and> at mr (r + 2 * i + 1) = Some claims \<and>
      entry nxt' g t = Some (Some (reward - claims))"
proof (induction ks arbitrary: r nxt i)
  case Nil
  then show ?case by simp
next
  case (Cons k ks)
  from Cons.prems(1) obtain nxt1 where
    r1: "assignNextRewards_round tA mr k r nxt = Inr nxt1" and
    l1: "assignNextRewards_loop tA mr ks (r + 2) nxt1 = Inr nxt'"
    by (rule assignNextRewards_loop_Cons)
  show ?case
  proof (cases i)
    case 0
    with Cons.prems have k: "k \<noteq> []" "keyPair tA k = (g, t)"
      and rest: "\<forall>j<length ks. ks ! j \<noteq> [] \<longrightarrow> keyPair tA (ks ! j) \<noteq> (g, t)"
      by auto
    from r1 k obtain reward claims where
      "at mr r = Some reward" "at mr (r + 1) = Some claims"
      "entry nxt1 g t = Some (Some (reward - claims))"
      by (cases rule: assignNextRewards_round_cases) (auto simp: entry_put)
    with assignNextRewards_loop_other [OF l1 rest] 0 show ?thesis by simp
  next
    case (Suc i')
    with Cons.prems have "i' < length ks" "ks ! i' \<noteq> []" "keyPair tA (ks ! i') = (g, t)"
      and "\<forall>j<length ks. i' < j \<longrightarrow> ks ! j \<noteq> [] \<longrightarrow> keyPair tA (ks ! j) \<noteq> (g, t)"
      by auto
    from Cons.IH [OF l1 this] Suc show ?thesis by (simp add: stride2)
  qed
qed

lemma assignNextRewards_round_returns:
  assumes "at mr r = Some reward" "at mr (r + 1) = Some claims"
  shows "\<exists>nxt'. assignNextRewards_round tA mr k r nxt = Inr nxt'"
  using assms by (simp add: assignNextRewards_round_def Let_def split: prod.splits)

lemma assignNextRewards_loop_returns:
  "\<forall>i<length ks. \<exists>reward claims. at mr (r + 2 * i) = Some reward \<and>
      at mr (r + 2 * i + 1) = Some claims \<Longrightarrow>
   \<exists>nxt'. assignNextRewards_loop tA mr ks r nxt = Inr nxt'"
proof (induction ks arbitrary: r nxt)
  case Nil
  show ?case by simp
next
  case (Cons k ks)
  from Cons.prems have "\<exists>reward claims. at mr r = Some reward \<and> at mr (r + 1) = Some claims"
    by fastforce
  then obtain nxt1 where r1: "assignNextRewards_round tA mr k r nxt = Inr nxt1"
    using assignNextRewards_round_returns by blast
  have "\<forall>i<length ks. \<exists>reward claims. at mr (r + 2 + 2 * i) = Some reward \<and>
      at mr (r + 2 + 2 * i + 1) = Some claims"
  proof (intro allI impI)
    fix i assume "i < length ks"
    then have "Suc i < length (k # ks)" by simp
    from Cons.prems [rule_format, OF this]
    show "\<exists>reward claims. at mr (r + 2 + 2 * i) = Some reward \<and>
      at mr (r + 2 + 2 * i + 1) = Some claims"
      by (simp add: stride2)
  qed
  from Cons.IH [OF this] r1 show ?case by simp
qed

text \<open>
  C3: the key list holds composite keys and the result list matches it, two numbers per
  key. Then \<open>assignNextRewards\<close> publishes, and for every key the entry of its (gauge,
  token) pair is exactly \<open>reward_per_gauge - claims_per_gauge\<close> of that key, an
  integer that is not clamped; no other position of the result list enters it. When
  several keys have the same pair, the entry is that of the last one, hence the condition
  on the later keys.
\<close>

theorem assignNextRewards_difference:
  assumes res: "multicallResult = map Some vals"
    and len: "length vals = 2 * length rewardsList"
    and keys: "[] \<notin> set rewardsList"
  shows "\<exists>s'. assignNextRewards toAddress rewardsList multicallResult s = Inr s' \<and>
           (\<forall>i<length rewardsList.
              (\<forall>j<length rewardsList. i < j \<longrightarrow>
                 keyPair toAddress (rewardsList ! j) \<noteq> keyPair toAddress (rewardsList ! i)) \<longrightarrow>
              entry (nextRewards s') (fst (keyPair toAddress (rewardsList ! i)))
                    (snd (keyPair toAddress (rewardsList ! i))) =
                Some (Some (vals ! (2 * i) - vals ! (2 * i + 1))))"
proof (cases "rewardsList = []")
  case True
  then show ?thesis by (simp add: assignNextRewards_def)
next
  case ne: False
  have total: "\<forall>i<length rewardsList. \<exists>reward claims.
      at multicallResult (0 + 2 * i) = Some reward \<and>
      at multicallResult (0 + 2 * i + 1) = Some claims"
    using len by (simp add: res at_map_Some)
  obtain nxt where
    loop: "assignNextRewards_loop toAddress multicallResult rewardsList 0 Map.empty = Inr nxt"
    using assignNextRewards_loop_returns [OF total] by blast
  from ne have nonempty: "multicallResult \<noteq> []"
    using len res by auto
  have run: "assignNextRewards toAddress rewardsList multicallResult s =
      Inr (s\<lparr>nextRewards := nxt\<rparr>)"
    using ne nonempty loop by (simp add: assignNextRewards_def)
  have "entry nxt (fst (keyPair toAddress (rewardsList ! i)))
                  (snd (keyPair toAddress (rewardsList ! i))) =
          Some (Some (vals ! (2 * i) - vals ! (2 * i + 1)))"
    if i: "i < length rewardsList"
      and later: "\<forall>j<length rewardsList. i < j \<longrightarrow>
        keyPair toAddress (rewardsList ! j) \<noteq> keyPair toAddress (rewardsList ! i)"
    for i
  proof -
    from i keys have k: "rewardsList ! i \<noteq> []"
      by (metis nth_mem)
    have pair: "keyPair toAddress (rewardsList ! i) =
        (fst (keyPair toAddress (rewardsList ! i)), snd (keyPair toAddress (rewardsList ! i)))"
      by simp
    from later have later': "\<forall>j<length rewardsList. i < j \<longrightarrow> rewardsList ! j \<noteq> [] \<longrightarrow>
        keyPair toAddress (rewardsList ! j) \<noteq>
          (fst (keyPair toAddress (rewardsList ! i)), snd (keyPair toAddress (rewardsList ! i)))"
      by simp
    from assignNextRewards_loop_last [OF loop i k pair later'] i len show ?thesis
      by (auto simp: res at_map_Some split: if_splits)
  qed
  with run show ?thesis by simp
qed

theorem assignNextRewards_difference_witness:
  "\<exists>s'. assignNextRewards plainAddress [''G1_T1'', ''G1_T2'']
            (map Some [100, 30, 30, 100]) (initialState 1000) = Inr s' \<and>
         entry (nextRewards s') ''G1'' ''T1'' = Some (Some 70) \<and>
         entry (nextRewards s') ''G1'' ''T2'' = Some (Some (- 70))"
proof -
  have k1: "keyPair plainAddress ''G1_T1'' = (''G1'', ''T1'')"
    by (simp add: keyPair_def destructure2_def plainAddress_def)
  have k2: "keyPair plainAddress ''G1_T2'' = (''G1'', ''T2'')"
    by (simp add: keyPair_def destructure2_def plainAddress_def)
  from assignNextRewards_difference [where toAddress = plainAddress
      and rewardsList = "[''G1_T1'', ''G1_T2'']" and vals = "[100, 30, 30, 100]"
      and multicallResult = "map Some [100, 30, 30, 100]" and s = "initialState 1000"]
  obtain s' where
    run: "assignNextRewards plainAddress [''G1_T1'', ''G1_T2'']
            (map Some [100, 30, 30, 100]) (initialState 1000) = Inr s'" and
    each: "\<forall>i<2. (\<forall>j<2. i < j \<longrightarrow>
              keyPair plainAddress ([''G1_T1'', ''G1_T2''] ! j) \<noteq>
              keyPair plainAddress ([''G1_T1'', ''G1_T2''] ! i)) \<longrightarrow>
            entry (nextRewards s') (fst (keyPair plainAddress ([''G1_T1'', ''G1_T2''] ! i)))
                  (snd (keyPair plainAddress ([''G1_T1'', ''G1_T2''] ! i))) =
              Some (Some ([100, 30, 30, 100] ! (2 * i) - [100, 30, 30, 100] ! (2 * i + 1) :: int))"
    by (auto simp: numeral_2_eq_2)
  from each have "entry (nextRewards s') ''G1'' ''T1'' = Some (Some 70) \<and>
      entry (nextRewards s') ''G1'' ''T2'' = Some (Some (- 70))"
    by (simp add: numeral_2_eq_2 All_less_Suc2 k1 k2)
  with run show ?thesis by blast
qed

section \<open>Composite keys round-trip\<close>

lemma split_without: "c \<notin> set xs \<Longrightarrow> split c xs = [xs]"
  by (induction xs) auto

lemma split_at_first: "c \<notin> set xs \<Longrightarrow> split c (xs @ c # ys) = xs # split c ys"
  by (induction xs) auto

lemma isAddress_no_underscore:
  assumes "isAddress a"
  shows "CHR ''_'' \<notin> set a"
proof -
  from assms have "set (take 2 a) = set ''0x''" and "\<forall>c \<in> set (drop 2 a). hexDigit c"
    by (simp_all add: isAddress_def list_all_iff)
  moreover have "set a = set (take 2 a) \<union> set (drop 2 a)"
    by (metis append_take_drop_id set_append)
  moreover have "\<not> hexDigit CHR ''_''"
    by (simp add: hexDigit_def)
  ultimately show ?thesis by auto
qed

text \<open>
  C5: for a gauge address and a token address (\<open>0x\<close> and forty hexadecimal digits, in
  lower, upper or mixed case), splitting the composite key at the underscore gives back
  exactly the two strings the key was built from, and the destructuring at lines 184 and
  220 binds \<open>gauge\<close> and \<open>token\<close> to them.
\<close>

theorem allowanceKey_split_roundtrip:
  assumes "isAddress g" and "isAddress t"
  shows "split CHR ''_'' (allowanceKey g t) = [g, t] \<and>
         destructure2 (split CHR ''_'' (allowanceKey g t)) = (Some g, Some t)"
proof -
  from assms have "CHR ''_'' \<notin> set g" "CHR ''_'' \<notin> set t"
    by (simp_all add: isAddress_no_underscore)
  then have "split CHR ''_'' (allowanceKey g t) = [g, t]"
    by (simp add: allowanceKey_def split_at_first split_without)
  then show ?thesis by (simp add: destructure2_def)
qed

theorem allowanceKey_split_roundtrip_witness:
  "isAddress ''0xd63042a93525f33500c3a5c0387856d5a69bd1ec'' \<and>
   isAddress ''0xD533a949740bb3306d119CC777fa900bA034cd52'' \<and>
   isAddress ''0XD533A949740BB3306D119CC777FA900BA034CD52'' = False \<and>
   isAddress ''0xD533A949740BB3306D119CC777FA900BA034CD52'' \<and>
   split CHR ''_'' (allowanceKey ''0xd63042a93525f33500c3a5c0387856d5a69bd1ec''
                       ''0xD533a949740bb3306d119CC777fa900bA034cd52'') =
     [''0xd63042a93525f33500c3a5c0387856d5a69bd1ec'',
      ''0xD533a949740bb3306d119CC777fa900bA034cd52''] \<and>
   destructure2 (split CHR ''_'' (allowanceKey ''0xD533A949740BB3306D119CC777FA900BA034CD52''
                       ''0xd63042a93525f33500c3a5c0387856d5a69bd1ec'')) =
     (Some ''0xD533A949740BB3306D119CC777FA900BA034CD52'',
      Some ''0xd63042a93525f33500c3a5c0387856d5a69bd1ec'')"
proof -
  have a: "isAddress ''0xd63042a93525f33500c3a5c0387856d5a69bd1ec''"
    by (simp add: isAddress_def hexDigit_def)
  have b: "isAddress ''0xD533a949740bb3306d119CC777fa900bA034cd52''"
    by (simp add: isAddress_def hexDigit_def)
  have c: "isAddress ''0xD533A949740BB3306D119CC777FA900BA034CD52''"
    by (simp add: isAddress_def hexDigit_def)
  have d: "isAddress ''0XD533A949740BB3306D119CC777FA900BA034CD52'' = False"
    by (simp add: isAddress_def hexDigit_def)
  from allowanceKey_split_roundtrip [OF a b] allowanceKey_split_roundtrip [OF c a] a b c d
  show ?thesis by blast
qed

section \<open>The reward-token list of the gauge descriptors\<close>

lemma at_shift: "at (snd (shift rpg)) i = at rpg (Suc i)" and at_0_shift: "fst (shift rpg) = at rpg 0"
  by (cases rpg; simp add: shift_def at_def)+

lemma getRewardsPerUser_loop_gauges:
  "getRewardsPerUser_loop contract user gs rpg = (gs', keys, calls) \<Longrightarrow>
   length gs' = length gs \<and>
   (\<forall>i<length gs. gauge (gs' ! i) = gauge (gs ! i) \<and>
      rewardPerGauge (gs' ! i) =
        (case at rpg i of
           None \<Rightarrow> rewardPerGauge (gs ! i)
         | Some tokens \<Rightarrow>
            if tokens = [] then rewardPerGauge (gs ! i)
            else Some ((case rewardPerGauge (gs ! i) of None \<Rightarrow> [] | Some old \<Rightarrow> old) @ tokens)))"
proof (induction gs arbitrary: rpg gs' keys calls)
  case Nil
  then show ?case by simp
next
  case (Cons g gs)
  obtain shifted rpg' where sh: "shift rpg = (shifted, rpg')"
    by (cases "shift rpg")
  obtain gs1 keys1 calls1 where
    rest: "getRewardsPerUser_loop contract user gs rpg' = (gs1, keys1, calls1)"
    by (cases "getRewardsPerUser_loop contract user gs rpg'")
  have at0: "at rpg 0 = shifted" and atS: "\<And>i. at rpg (Suc i) = at rpg' i"
    using at_0_shift [of rpg] at_shift [of rpg] sh by simp_all
  from Cons.IH [OF rest] have len: "length gs1 = length gs"
    and each: "\<forall>i<length gs. gauge (gs1 ! i) = gauge (gs ! i) \<and>
      rewardPerGauge (gs1 ! i) =
        (case at rpg' i of
           None \<Rightarrow> rewardPerGauge (gs ! i)
         | Some tokens \<Rightarrow>
            if tokens = [] then rewardPerGauge (gs ! i)
            else Some ((case rewardPerGauge (gs ! i) of None \<Rightarrow> [] | Some old \<Rightarrow> old) @ tokens))"
    by simp_all
  define g' where "g' =
      (case shifted of
         None \<Rightarrow> g
       | Some tokens \<Rightarrow>
          if tokens = [] then g
          else g\<lparr>rewardPerGauge :=
                 Some ((case rewardPerGauge g of None \<Rightarrow> [] | Some old \<Rightarrow> old) @ tokens)\<rparr>)"
  from Cons.prems sh rest have gs': "gs' = g' # gs1"
    by (auto simp: g'_def split: option.splits if_splits)
  have g': "gauge g' = gauge g"
      "rewardPerGauge g' =
        (case shifted of
           None \<Rightarrow> rewardPerGauge g
         | Some tokens \<Rightarrow>
            if tokens = [] then rewardPerGauge g
            else Some ((case rewardPerGauge g of None \<Rightarrow> [] | Some old \<Rightarrow> old) @ tokens))"
    by (simp_all add: g'_def split: option.splits)
  show ?case
    using len each g' by (simp add: gs' All_less_Suc2 at0 atS cong: option.case_cong if_cong)
qed

text \<open>
  C8: a gauge for which discovery found a non-empty token list gets those tokens pushed
  onto its \<open>rewardPerGauge\<close> field by \<open>getRewardsPerUser\<close>: after the call the field is
  what it was before (the empty list when it was absent) followed by the discovered
  tokens. A second call with the same discovery result pushes them once more, so the
  descriptor then lists every discovered token twice.
\<close>

theorem getRewardsPerUser_appends_tokens:
  assumes disc: "getRewardsPerGauges fallback w contract0 = Inr rewardsPerGauges"
    and i: "i < length rewardsPerGauges"
    and found: "rewardsPerGauges ! i = Some tokens"
    and ne: "tokens \<noteq> []"
  shows "\<exists>gs gs1 gs2. gauges w = Some gs \<and> i < length gs \<and>
           fst (getRewardsPerUser fallback w contract rewardsPerGauges) = Some gs1 \<and>
           rewardPerGauge (gs1 ! i) =
             Some ((case rewardPerGauge (gs ! i) of None \<Rightarrow> [] | Some old \<Rightarrow> old) @ tokens) \<and>
           fst (getRewardsPerUser fallback (w\<lparr>gauges := Some gs1\<rparr>) contract rewardsPerGauges) =
             Some gs2 \<and>
           rewardPerGauge (gs2 ! i) =
             Some ((case rewardPerGauge (gs ! i) of None \<Rightarrow> [] | Some old \<Rightarrow> old)
                   @ tokens @ tokens)"
proof -
  from i have nonempty: "rewardsPerGauges \<noteq> []" by auto
  with disc obtain p gs where
    act: "isActive w" and p: "web3Provider w = Some p" and gs: "gauges w = Some gs"
    and conn: "connect_fault p = None"
    and rpg: "tryAll_addresses p (map (\<lambda>g. Rewards_per_gauge contract0 (gauge g)) gs) =
                Inr rewardsPerGauges"
    by (auto simp: getRewardsPerGauges_def Let_def split: if_splits option.splits)
  from rpg have len: "length rewardsPerGauges = length gs"
    by (auto simp: tryAll_addresses_def split: option.splits)
  with i have igs: "i < length gs" by simp
  from i found have ati: "at rewardsPerGauges i = Some tokens"
    by (simp add: at_def)
  obtain gs1 keys1 calls1 where
    l1: "getRewardsPerUser_loop contract (userAddress w) gs rewardsPerGauges = (gs1, keys1, calls1)"
    by (cases "getRewardsPerUser_loop contract (userAddress w) gs rewardsPerGauges")
  obtain gs2 keys2 calls2 where
    l2: "getRewardsPerUser_loop contract (userAddress w) gs1 rewardsPerGauges = (gs2, keys2, calls2)"
    by (cases "getRewardsPerUser_loop contract (userAddress w) gs1 rewardsPerGauges")
  have u: "userAddress (w\<lparr>gauges := Some gs1\<rparr>) = userAddress w"
    by (simp add: userAddress_def)
  have run1: "fst (getRewardsPerUser fallback w contract rewardsPerGauges) = Some gs1"
    using act p gs conn nonempty l1 by (simp add: getRewardsPerUser_def)
  have run2: "fst (getRewardsPerUser fallback (w\<lparr>gauges := Some gs1\<rparr>) contract rewardsPerGauges) =
      Some gs2"
    using act p conn nonempty l2 by (simp add: getRewardsPerUser_def u)
  from getRewardsPerUser_loop_gauges [OF l1] igs ati ne
  have len1: "length gs1 = length gs" and
    one: "rewardPerGauge (gs1 ! i) =
      Some ((case rewardPerGauge (gs ! i) of None \<Rightarrow> [] | Some old \<Rightarrow> old) @ tokens)"
    by simp_all
  from getRewardsPerUser_loop_gauges [OF l2] igs len1 ati ne
  have "rewardPerGauge (gs2 ! i) =
      Some ((case rewardPerGauge (gs1 ! i) of None \<Rightarrow> [] | Some old \<Rightarrow> old) @ tokens)"
    by simp
  with one have two: "rewardPerGauge (gs2 ! i) =
      Some ((case rewardPerGauge (gs ! i) of None \<Rightarrow> [] | Some old \<Rightarrow> old) @ tokens @ tokens)"
    by simp
  from gs igs run1 one run2 two show ?thesis by blast
qed

theorem getRewardsPerUser_appends_tokens_witness:
  "getRewardsPerGauges sampleNode sampleClosure sampleV3 = Inr [Some [''T1'']] \<and>
   fst (getRewardsPerUser sampleNode sampleClosure sampleV3 [Some [''T1'']]) =
     Some [\<lparr>gauge = ''G1'', rewardPerGauge = Some [''T1'']\<rparr>] \<and>
   fst (getRewardsPerUser sampleNode
          (sampleClosure\<lparr>gauges := Some [\<lparr>gauge = ''G1'', rewardPerGauge = Some [''T1'']\<rparr>]\<rparr>)
          sampleV3 [Some [''T1'']]) =
     Some [\<lparr>gauge = ''G1'', rewardPerGauge = Some [''T1'', ''T1'']\<rparr>]"
proof -
  have disc: "getRewardsPerGauges sampleNode sampleClosure sampleV3 = Inr [Some [''T1'']]"
    by (simp add: getRewardsPerGauges_def sampleClosure_def sampleNode_def sampleV3_def
        tryAll_addresses_def)
  have g: "gauges sampleClosure = Some [\<lparr>gauge = ''G1'', rewardPerGauge = None\<rparr>]"
    by (simp add: sampleClosure_def)
  from getRewardsPerUser_appends_tokens [OF disc, of 0 "[''T1'']" sampleV3]
  obtain gs1 gs2 where
    r1: "fst (getRewardsPerUser sampleNode sampleClosure sampleV3 [Some [''T1'']]) = Some gs1" and
    f1: "rewardPerGauge (gs1 ! 0) = Some [''T1'']" and
    r2: "fst (getRewardsPerUser sampleNode (sampleClosure\<lparr>gauges := Some gs1\<rparr>) sampleV3
               [Some [''T1'']]) = Some gs2" and
    f2: "rewardPerGauge (gs2 ! 0) = Some [''T1'', ''T1'']"
    by (auto simp: g)
  have e1: "fst (getRewardsPerUser sampleNode sampleClosure sampleV3 [Some [''T1'']]) =
      Some [\<lparr>gauge = ''G1'', rewardPerGauge = Some [''T1'']\<rparr>]"
    by (simp add: getRewardsPerUser_def sampleClosure_def sampleNode_def shift_def Let_def)
  with r1 have gs1: "gs1 = [\<lparr>gauge = ''G1'', rewardPerGauge = Some [''T1'']\<rparr>]"
    by simp
  have "gs2 = [\<lparr>gauge = ''G1'', rewardPerGauge = Some [''T1'', ''T1'']\<rparr>]"
    using r2 unfolding gs1
    by (simp add: getRewardsPerUser_def sampleClosure_def sampleNode_def shift_def Let_def)
  with disc e1 r2 gs1 show ?thesis by simp
qed

section \<open>The loading flag\<close>

lemma getRewardsPerUser_loop_nothing:
  "\<forall>x \<in> set rpg. x = None \<or> x = Some [] \<Longrightarrow>
   getRewardsPerUser_loop contract user gs rpg = (gs, [], [])"
  by (induction gs arbitrary: rpg)
    (auto simp: shift_def split: list.splits option.splits)

lemma getNextPeriodRewards_loop_nothing:
  "\<forall>x \<in> set rpg. x = None \<or> x = Some [] \<Longrightarrow>
   getNextPeriodRewards_loop contract gs rpg = ([], [])"
  by (induction gs arbitrary: rpg)
    (auto simp: shift_def split: list.splits option.splits)

lemma getRewardsPerGauges_cases:
  assumes "getRewardsPerGauges fallback w contract = Inr rpg"
  obtains (guard) "rpg = []"
    | (sent) p gs where "isActive w" "web3Provider w = Some p" "gauges w = Some gs"
        "connect_fault p = None" "batch_fault p = None"
  using assms
  by (auto simp: getRewardsPerGauges_def tryAll_addresses_def Let_def
      split: if_splits option.splits)

lemma getRewardsPerUser_nothing:
  assumes "getRewardsPerGauges fallback w contract0 = Inr rpg0"
    and "\<forall>x \<in> set rpg. x = None \<or> x = Some []"
    and "rpg0 = [] \<longrightarrow> rpg = []"
  shows "getRewardsPerUser fallback w contract rpg = (gauges w, Inr ([], []))"
  using assms(1)
proof (cases rule: getRewardsPerGauges_cases)
  case guard
  with assms(3) show ?thesis by (simp add: getRewardsPerUser_def)
next
  case (sent p gs)
  with assms(2) show ?thesis
    by (simp add: getRewardsPerUser_def getRewardsPerUser_loop_nothing tryAll_uint_def)
qed

lemma getNextPeriodRewards_nothing:
  assumes "getRewardsPerGauges fallback w contract0 = Inr rpg0"
    and "\<forall>x \<in> set rpg. x = None \<or> x = Some []"
    and "rpg0 = [] \<longrightarrow> rpg = []"
  shows "getNextPeriodRewards fallback w contract rpg = Inr ([], [])"
  using assms(1)
proof (cases rule: getRewardsPerGauges_cases)
  case guard
  with assms(3) show ?thesis by (simp add: getNextPeriodRewards_def)
next
  case (sent p gs)
  with assms(2) show ?thesis
    by (simp add: getNextPeriodRewards_def getNextPeriodRewards_loop_nothing tryAll_uint_def)
qed

lemma getBribes_nothing:
  assumes v2: "getRewardsPerGauges fallback w (Contract v2Address CURVE_BRIBE_V2) = Inr rpg2"
    and v3: "getRewardsPerGauges fallback w (Contract v3Address CURVE_BRIBE_V3) = Inr rpg3"
    and none: "\<forall>x \<in> set rpg2 \<union> set rpg3. x = None \<or> x = Some []"
  shows "getBribes fallback toAddress v2Address v3Address cp w s = (gauges w, Inr s)"
proof -
  have same: "w\<lparr>gauges := gauges w\<rparr> = w" by simp
  from none have n2: "\<forall>x \<in> set rpg2. x = None \<or> x = Some []"
    and n3: "\<forall>x \<in> set rpg3. x = None \<or> x = Some []"
    by auto
  have u2: "getRewardsPerUser fallback w (Contract v2Address CURVE_BRIBE_V2) rpg2 =
      (gauges w, Inr ([], []))"
    using v2 n2 by (rule getRewardsPerUser_nothing) simp
  have u3: "getRewardsPerUser fallback w (Contract v2Address CURVE_BRIBE_V2) rpg3 =
      (gauges w, Inr ([], []))"
    using v3 n3 by (rule getRewardsPerUser_nothing) simp
  have nx: "getNextPeriodRewards fallback w (Contract v3Address CURVE_BRIBE_V3) rpg3 =
      Inr ([], [])"
    using v3 n3 by (rule getNextPeriodRewards_nothing) simp
  show ?thesis
    by (simp add: getBribes_def v2 v3 u2 u3 nx same assignBribes_def assignNextRewards_def)
qed

text \<open>
  C10: only \<open>assignBribes\<close> writes the loading flag, and only on a run with a non-empty
  key list and a non-empty result list, which sets it to false. Reading the periods and
  \<open>assignNextRewards\<close> keep the flag. A refresh in which neither registry reports a
  reward token (in particular with an inactive connection, no provider or no gauges)
  leaves every cell, and the gauges, as they were; after the initial mount the flag is
  then still true.
\<close>

theorem isLoading_cleared_only_by_assignBribes:
  "(getSharedStuffFromBribes fallback Number v3Address w s = Inr afterPeriods \<longrightarrow>
      isLoading afterPeriods = isLoading s) \<and>
   (assignNextRewards toAddress rewardsList multicallResult s = Inr afterNext \<longrightarrow>
      isLoading afterNext = isLoading s) \<and>
   (assignBribes toAddress cp rewardsList multicallResult s = Inr afterBribes \<longrightarrow>
      isLoading afterBribes \<noteq> isLoading s \<longrightarrow>
      rewardsList \<noteq> [] \<and> multicallResult \<noteq> [] \<and> isLoading s \<and> \<not> isLoading afterBribes) \<and>
   (getRewardsPerGauges fallback w (Contract v2Address CURVE_BRIBE_V2) = Inr v2Lists \<longrightarrow>
    getRewardsPerGauges fallback w (Contract v3Address CURVE_BRIBE_V3) = Inr v3Lists \<longrightarrow>
    (\<forall>x \<in> set v2Lists \<union> set v3Lists. x = None \<or> x = Some []) \<longrightarrow>
      getBribes fallback toAddress v2Address v3Address cp w s = (gauges w, Inr s)) \<and>
   (\<not> isActive w \<or> web3Provider w = None \<or> gauges w = None \<or> gauges w = Some [] \<longrightarrow>
      getBribes fallback toAddress v2Address v3Address cp w s = (gauges w, Inr s)) \<and>
   isLoading (initialState lastThursday)"
proof (intro conjI impI)
  assume "getSharedStuffFromBribes fallback Number v3Address w s = Inr afterPeriods"
  then show "isLoading afterPeriods = isLoading s"
    by (auto simp: getSharedStuffFromBribes_def Let_def split: option.splits sum.splits list.splits)
next
  assume "assignNextRewards toAddress rewardsList multicallResult s = Inr afterNext"
  then show "isLoading afterNext = isLoading s"
    by (auto simp: assignNextRewards_def split: if_splits sum.splits)
next
  assume run: "assignBribes toAddress cp rewardsList multicallResult s = Inr afterBribes"
    and chg: "isLoading afterBribes \<noteq> isLoading s"
  from run chg show "rewardsList \<noteq> []" by (auto simp: assignBribes_def)
  from run chg show "multicallResult \<noteq> []" by (auto simp: assignBribes_def)
  from run chg show "\<not> isLoading afterBribes"
    by (auto simp: assignBribes_def split: if_splits sum.splits)
  with chg show "isLoading s" by simp
next
  assume "getRewardsPerGauges fallback w (Contract v2Address CURVE_BRIBE_V2) = Inr v2Lists"
    "getRewardsPerGauges fallback w (Contract v3Address CURVE_BRIBE_V3) = Inr v3Lists"
    "\<forall>x \<in> set v2Lists \<union> set v3Lists. x = None \<or> x = Some []"
  then show "getBribes fallback toAddress v2Address v3Address cp w s = (gauges w, Inr s)"
    by (rule getBribes_nothing)
next
  assume off: "\<not> isActive w \<or> web3Provider w = None \<or> gauges w = None \<or> gauges w = Some []"
  then have "getRewardsPerGauges fallback w (Contract v2Address CURVE_BRIBE_V2) = Inr []"
    "getRewardsPerGauges fallback w (Contract v3Address CURVE_BRIBE_V3) = Inr []"
    by (auto simp: getRewardsPerGauges_def)
  then show "getBribes fallback toAddress v2Address v3Address cp w s = (gauges w, Inr s)"
    by (rule getBribes_nothing) simp
next
  show "isLoading (initialState lastThursday)"
    by (simp add: initialState_def)
qed

theorem isLoading_cleared_only_by_assignBribes_witness:
  "isLoading (initialState 1000) \<and>
   getBribes sampleNode plainAddress ''V2'' ''V3'' 1000 (sampleClosure\<lparr>isActive := False\<rparr>)
       (initialState 1000) =
     (Some [\<lparr>gauge = ''G1'', rewardPerGauge = None\<rparr>], Inr (initialState 1000)) \<and>
   getBribes sampleNode plainAddress ''V2'' ''V3'' 1000
       (sampleClosure\<lparr>gauges := Some [\<lparr>gauge = ''G2'', rewardPerGauge = None\<rparr>]\<rparr>)
       (initialState 1000) =
     (Some [\<lparr>gauge = ''G2'', rewardPerGauge = None\<rparr>], Inr (initialState 1000)) \<and>
   (\<exists>s3. assignBribes plainAddress 1000 [''G1_T1''] (map Some [100, 1000, 5])
            (initialState 1000) = Inr s3 \<and> \<not> isLoading s3) \<and>
   (\<exists>s2. assignNextRewards plainAddress [''G1_T1''] (map Some [100, 30])
            (initialState 1000) = Inr s2 \<and> isLoading s2) \<and>
   (\<exists>s1. getSharedStuffFromBribes sampleNode (\<lambda>x. case x of None \<Rightarrow> 0 | Some v \<Rightarrow> v) ''V3''
            sampleClosure (initialState 1000) = Inr s1 \<and> currentPeriod s1 = 1000 \<and> isLoading s1)"
proof -
  let ?quiet = "sampleClosure\<lparr>gauges := Some [\<lparr>gauge = ''G2'', rewardPerGauge = None\<rparr>]\<rparr>"
  let ?off = "sampleClosure\<lparr>isActive := False\<rparr>"
  let ?Number = "\<lambda>x::BigNumber option. case x of None \<Rightarrow> (0::int) | Some v \<Rightarrow> v"
  have init: "isLoading (initialState 1000)"
    by (simp add: initialState_def)
  have shared: "getSharedStuffFromBribes sampleNode ?Number ''V3'' sampleClosure
        (initialState 1000) =
      Inr ((initialState 1000)\<lparr>currentPeriod := 1000, nextPeriod := 1000 + (86400 * 7)\<rparr>)"
    by (simp add: getSharedStuffFromBribes_def sampleClosure_def sampleNode_def tryAll_uint_def
        at_def)
  have nxt: "assignNextRewards plainAddress [''G1_T1''] (map Some [100, 30]) (initialState 1000) =
      Inr ((initialState 1000)\<lparr>nextRewards := put Map.empty ''G1'' ''T1'' (Some 70)\<rparr>)"
    by (simp add: assignNextRewards_def assignNextRewards_round_def at_def keyPair_def
        destructure2_def plainAddress_def)
  have cur: "assignBribes plainAddress 1000 [''G1_T1''] (map Some [100, 1000, 5])
        (initialState 1000) =
      Inr ((initialState 1000)\<lparr>currentRewards := put Map.empty ''G1'' ''T1'' (Some 100),
             claimable := put Map.empty ''G1'' ''T1'' (Some 5), isLoading := False\<rparr>)"
    by (simp add: assignBribes_def assignBribes_round_def at_def toNumber_def keyPair_def
        destructure2_def plainAddress_def)
  have d2: "getRewardsPerGauges sampleNode ?quiet (Contract ''V2'' CURVE_BRIBE_V2) = Inr [Some []]"
    by (simp add: getRewardsPerGauges_def sampleClosure_def sampleNode_def tryAll_addresses_def)
  have d3: "getRewardsPerGauges sampleNode ?quiet (Contract ''V3'' CURVE_BRIBE_V3) = Inr [Some []]"
    by (simp add: getRewardsPerGauges_def sampleClosure_def sampleNode_def tryAll_addresses_def)
  have gq: "gauges ?quiet = Some [\<lparr>gauge = ''G2'', rewardPerGauge = None\<rparr>]"
    by simp
  have go: "gauges ?off = Some [\<lparr>gauge = ''G1'', rewardPerGauge = None\<rparr>]"
    by (simp add: sampleClosure_def)
  note quiet = isLoading_cleared_only_by_assignBribes [where fallback = sampleNode
      and Number = ?Number and v2Address = "''V2''" and v3Address = "''V3''"
      and toAddress = plainAddress and cp = 1000 and s = "initialState 1000"
      and w = ?quiet and v2Lists = "[Some []]" and v3Lists = "[Some []]"
      and rewardsList = "[''G1_T1'']" and multicallResult = "map Some [100, 1000, 5]"
      and afterBribes = "(initialState 1000)\<lparr>currentRewards := put Map.empty ''G1'' ''T1'' (Some 100),
             claimable := put Map.empty ''G1'' ''T1'' (Some 5), isLoading := False\<rparr>"]
  note off = isLoading_cleared_only_by_assignBribes [where fallback = sampleNode
      and Number = ?Number and v2Address = "''V2''" and v3Address = "''V3''"
      and toAddress = plainAddress and cp = 1000 and s = "initialState 1000"
      and w = ?off
      and rewardsList = "[''G1_T1'']" and multicallResult = "map Some [100, 30]"
      and afterNext = "(initialState 1000)\<lparr>nextRewards := put Map.empty ''G1'' ''T1'' (Some 70)\<rparr>"]
  note periods = isLoading_cleared_only_by_assignBribes [where fallback = sampleNode
      and Number = ?Number and v3Address = "''V3''" and w = sampleClosure
      and s = "initialState 1000"
      and afterPeriods = "(initialState 1000)\<lparr>currentPeriod := 1000, nextPeriod := 1000 + (86400 * 7)\<rparr>"]
  have a: "getBribes sampleNode plainAddress ''V2'' ''V3'' 1000 ?quiet (initialState 1000) =
      (Some [\<lparr>gauge = ''G2'', rewardPerGauge = None\<rparr>], Inr (initialState 1000))"
    using quiet d2 d3 unfolding gq by simp
  have b: "getBribes sampleNode plainAddress ''V2'' ''V3'' 1000 ?off (initialState 1000) =
      (Some [\<lparr>gauge = ''G1'', rewardPerGauge = None\<rparr>], Inr (initialState 1000))"
    using off unfolding go by simp
  have c: "\<not> isLoading ((initialState 1000)\<lparr>currentRewards := put Map.empty ''G1'' ''T1'' (Some 100),
             claimable := put Map.empty ''G1'' ''T1'' (Some 5), isLoading := False\<rparr>)"
    using quiet cur init by simp
  have d: "isLoading ((initialState 1000)\<lparr>nextRewards := put Map.empty ''G1'' ''T1'' (Some 70)\<rparr>)"
    using off nxt init by simp
  have e: "isLoading ((initialState 1000)\<lparr>currentPeriod := 1000, nextPeriod := 1000 + (86400 * 7)\<rparr>)"
    using periods shared init by simp
  from init a b c d e cur nxt shared show ?thesis
    by simp
qed

section \<open>The contract of the second per-user fetch\<close>

text \<open>
  C1: the refresh is meant to fetch, for the token lists discovered on the V3 registry,
  the per-user reads from the V3 registry. Line 244 passes \<open>curveBribeV2Contract\<close>
  instead, so those reads go to the V2 registry. On the sample node the V3 registry
  reports token \<open>T1\<close> for gauge \<open>G1\<close> with reward 100 in the current period 1000, and a
  fetch against it returns these numbers; the refresh reads the V2 registry's zeros and
  publishes no current reward and no claimable amount for \<open>(G1, T1)\<close>, while the
  next-period fetch, which does use the V3 registry, publishes 100 - 30 = 70.
\<close>

theorem getBribes_v3_lists_fetched_from_v2:
  "getRewardsPerGauges sampleNode sampleClosure (Contract ''V3'' CURVE_BRIBE_V3) =
     Inr [Some [''T1'']] \<and>
   snd (getRewardsPerUser sampleNode sampleClosure (Contract ''V3'' CURVE_BRIBE_V3)
          [Some [''T1'']]) = Inr ([''G1_T1''], [Some 100, Some 1000, Some 5]) \<and>
   snd (getRewardsPerUser sampleNode sampleClosure (Contract ''V2'' CURVE_BRIBE_V2)
          [Some [''T1'']]) = Inr ([''G1_T1''], [Some 0, Some 0, Some 0]) \<and>
   (\<exists>gs s'. getBribes sampleNode plainAddress ''V2'' ''V3'' 1000 sampleClosure
               (initialState 1000) = (gs, Inr s') \<and>
            entry (currentRewards s') ''G1'' ''T1'' = None \<and>
            entry (claimable s') ''G1'' ''T1'' = None \<and>
            entry (nextRewards s') ''G1'' ''T1'' = Some (Some 70) \<and>
            \<not> isLoading s')"
proof -
  let ?g = "\<lparr>gauge = ''G1'', rewardPerGauge = None\<rparr>"
  let ?g' = "\<lparr>gauge = ''G1'', rewardPerGauge = Some [''T1'']\<rparr>"
  let ?v2 = "Contract ''V2'' CURVE_BRIBE_V2"
  let ?v3 = "Contract ''V3'' CURVE_BRIBE_V3"
  have d2: "getRewardsPerGauges sampleNode sampleClosure ?v2 = Inr [Some []]"
    by (simp add: getRewardsPerGauges_def sampleClosure_def sampleNode_def tryAll_addresses_def)
  have d3: "getRewardsPerGauges sampleNode sampleClosure ?v3 = Inr [Some [''T1'']]"
    by (simp add: getRewardsPerGauges_def sampleClosure_def sampleNode_def tryAll_addresses_def)
  have u2: "getRewardsPerUser sampleNode sampleClosure ?v2 [Some []] = (Some [?g], Inr ([], []))"
    by (simp add: getRewardsPerUser_def sampleClosure_def sampleNode_def tryAll_uint_def
        shift_def Let_def)
  have same: "sampleClosure\<lparr>gauges := Some [?g]\<rparr> = sampleClosure"
    by (simp add: sampleClosure_def)
  have u3: "getRewardsPerUser sampleNode sampleClosure ?v2 [Some [''T1'']] =
      (Some [?g'], Inr ([''G1_T1''], [Some 0, Some 0, Some 0]))"
    by (simp add: getRewardsPerUser_def sampleClosure_def sampleNode_def tryAll_uint_def
        shift_def Let_def allowanceKey_def)
  have u3': "getRewardsPerUser sampleNode sampleClosure ?v3 [Some [''T1'']] =
      (Some [?g'], Inr ([''G1_T1''], [Some 100, Some 1000, Some 5]))"
    by (simp add: getRewardsPerUser_def sampleClosure_def sampleNode_def tryAll_uint_def
        shift_def Let_def allowanceKey_def)
  have n3: "getNextPeriodRewards sampleNode (sampleClosure\<lparr>gauges := Some [?g']\<rparr>) ?v3
        [Some [''T1'']] = Inr ([''G1_T1''], [Some 100, Some 30])"
    by (simp add: getNextPeriodRewards_def sampleClosure_def sampleNode_def tryAll_uint_def
        shift_def Let_def allowanceKey_def)
  have ab: "assignBribes plainAddress 1000 [''G1_T1''] [Some 0, Some 0, Some 0]
        (initialState 1000) =
      Inr ((initialState 1000)\<lparr>currentRewards := Map.empty, claimable := Map.empty,
             isLoading := False\<rparr>)"
    by (simp add: assignBribes_def assignBribes_round_def at_def toNumber_def)
  have an: "assignNextRewards plainAddress [''G1_T1''] [Some 100, Some 30]
        ((initialState 1000)\<lparr>currentRewards := Map.empty, claimable := Map.empty,
             isLoading := False\<rparr>) =
      Inr ((initialState 1000)\<lparr>currentRewards := Map.empty, claimable := Map.empty,
             isLoading := False, nextRewards := put Map.empty ''G1'' ''T1'' (Some 70)\<rparr>)"
    by (simp add: assignNextRewards_def assignNextRewards_round_def at_def keyPair_def
        destructure2_def plainAddress_def)
  have run: "getBribes sampleNode plainAddress ''V2'' ''V3'' 1000 sampleClosure
        (initialState 1000) =
      (Some [?g'],
       Inr ((initialState 1000)\<lparr>currentRewards := Map.empty, claimable := Map.empty,
              isLoading := False, nextRewards := put Map.empty ''G1'' ''T1'' (Some 70)\<rparr>))"
    by (simp add: getBribes_def d2 d3 u2 same u3 n3 ab an)
  show ?thesis
    unfolding run d3 u3 u3' by (simp add: entry_put)
qed

theorem getBribes_v3_lists_fetched_from_v2_witness:
  "isActive sampleClosure \<and> web3Provider sampleClosure = Some sampleNode \<and>
   gauges sampleClosure = Some [\<lparr>gauge = ''G1'', rewardPerGauge = None\<rparr>] \<and>
   (\<exists>gs s'. getBribes sampleNode plainAddress ''V2'' ''V3'' 1000 sampleClosure
               (initialState 1000) = (gs, Inr s') \<and>
            entry (currentRewards s') ''G1'' ''T1'' = None)"
  using getBribes_v3_lists_fetched_from_v2 by (auto simp: sampleClosure_def)
end
